theory Spec2Isabelle
  imports Main
begin

section \<open>JavaScript values, property descriptors and errors\<close>

text \<open>
  The embedding follows \<^verbatim>\<open>packages/@lwc/engine/src/framework/decorators/register.ts\<close>.
  Class constructors, wire adapters and config callbacks are compared by reference only, so
  each is an identifier. A JavaScript value is modelled as far as the registration code
  inspects one: \<^verbatim>\<open>isUndefined\<close>, \<^verbatim>\<open>isFunction\<close>, \<^verbatim>\<open>isFalse\<close> and the strict
  comparison \<^verbatim>\<open>method === 1\<close>.
\<close>

type_synonym ComponentConstructor = nat
type_synonym WireAdapterConstructor = nat
type_synonym ConfigCallback = nat

datatype jsval = JUndefined | JNull | JBool bool | JNum int | JStr string | JFun nat | JObj nat

fun isUndefined :: "jsval \<Rightarrow> bool" where
  "isUndefined JUndefined = True"
| "isUndefined _ = False"

fun isFunction :: "jsval \<Rightarrow> bool" where
  "isFunction (JFun _) = True"
| "isFunction _ = False"

fun isFalse :: "jsval \<Rightarrow> bool" where
  "isFalse (JBool b) = (\<not> b)"
| "isFalse _ = False"

text \<open>
  An own property of a prototype, as \<^verbatim>\<open>getOwnPropertyDescriptor\<close> reports it: a data
  property (value, writable, enumerable, configurable) or an accessor property (get, set,
  enumerable, configurable). Reading an attribute the descriptor does not carry gives
  \<^verbatim>\<open>undefined\<close>.
\<close>

datatype PropertyDescriptor =
  DataDescriptor jsval bool bool bool
| AccessorDescriptor jsval jsval bool bool

fun desc_value :: "PropertyDescriptor \<Rightarrow> jsval" where
  "desc_value (DataDescriptor v w en co) = v"
| "desc_value (AccessorDescriptor g st en co) = JUndefined"

fun desc_writable :: "PropertyDescriptor \<Rightarrow> jsval" where
  "desc_writable (DataDescriptor v w en co) = JBool w"
| "desc_writable (AccessorDescriptor g st en co) = JUndefined"

fun desc_get :: "PropertyDescriptor \<Rightarrow> jsval" where
  "desc_get (DataDescriptor v w en co) = JUndefined"
| "desc_get (AccessorDescriptor g st en co) = g"

fun desc_set :: "PropertyDescriptor \<Rightarrow> jsval" where
  "desc_set (DataDescriptor v w en co) = JUndefined"
| "desc_set (AccessorDescriptor g st en co) = st"

fun desc_enumerable :: "PropertyDescriptor \<Rightarrow> bool" where
  "desc_enumerable (DataDescriptor v w en co) = en"
| "desc_enumerable (AccessorDescriptor g st en co) = en"

fun desc_configurable :: "PropertyDescriptor \<Rightarrow> bool" where
  "desc_configurable (DataDescriptor v w en co) = co"
| "desc_configurable (AccessorDescriptor g st en co) = co"

text \<open>
  What a failed registration throws: the argument of \<^verbatim>\<open>assert.fail\<close>, the argument of
  a violated \<^verbatim>\<open>assert.isTrue\<close>, the \<^verbatim>\<open>TypeError\<close> of a rejected
  \<^verbatim>\<open>Object.defineProperty\<close>, or whatever a collaborator throws.
\<close>

datatype error = AssertFail string | AssertIsTrue string | TypeError | Thrown string

text \<open>
  Modelled from the spec: the shared \<^verbatim>\<open>assert\<close> module is not among the sources. A
  violation "fails immediately and unconditionally (aborts registration) with a
  diagnostic": \<^verbatim>\<open>assert.fail(msg)\<close> always throws, and \<^verbatim>\<open>assert.isTrue(c, msg)\<close> throws
  when \<open>c\<close> is false.
\<close>

definition assert_fail :: "string \<Rightarrow> error + unit" where
  "assert_fail msg = Inl (AssertFail msg)"

definition assert_isTrue :: "bool \<Rightarrow> string \<Rightarrow> error + unit" where
  "assert_isTrue c msg = (if c then Inr () else Inl (AssertIsTrue msg))"

section \<open>Compiler metadata and resolved metadata\<close>

datatype PropType = Field | Set | Get | GetSet

fun propTypeValue :: "PropType \<Rightarrow> nat" where
  "propTypeValue Field = 0"
| "propTypeValue Set = 1"
| "propTypeValue Get = 2"
| "propTypeValue GetSet = 3"

record PropCompilerDef =
  prop_config :: PropType
  prop_type :: string

record WireCompilerDef =
  wire_method :: jsval
  wire_adapter :: WireAdapterConstructor
  wire_config :: ConfigCallback

text \<open>
  A \<^verbatim>\<open>Record<string, _>\<close> is given by its entries in the order \<^verbatim>\<open>for ... in\<close> visits
  them; an object has each key once, so the keys of a well-formed mapping are distinct. An
  optional member that is absent (\<^verbatim>\<open>undefined\<close>) is \<open>None\<close>.

  That order is fixed by the language, not by the registration code: first the keys that
  are array indices (canonical decimal numerals below \<open>2\<^sup>3\<^sup>2 - 1\<close>: digits only, no
  leading zero but in \<^verbatim>\<open>"0"\<close>), in ascending numeric order, then the other keys in the
  order in which the properties were created. For an object written as a literal, or
  filled key by key, whose entries were declared in the order \<open>declared\<close>, the loop visits
  \<open>forInOrder declared\<close>.
\<close>

definition digitValue :: "char \<Rightarrow> nat option" where
  "digitValue =
     map_of [(CHR ''0'', 0), (CHR ''1'', 1), (CHR ''2'', 2), (CHR ''3'', 3), (CHR ''4'', 4),
             (CHR ''5'', 5), (CHR ''6'', 6), (CHR ''7'', 7), (CHR ''8'', 8), (CHR ''9'', 9)]"

fun decimalValue :: "string \<Rightarrow> nat \<Rightarrow> nat option" where
  "decimalValue [] acc = Some acc"
| "decimalValue (c # cs) acc =
     (case digitValue c of
        None \<Rightarrow> None
      | Some k \<Rightarrow> decimalValue cs (10 * acc + k))"

definition arrayIndex :: "string \<Rightarrow> nat option" where
  "arrayIndex name =
     (case name of
        [] \<Rightarrow> None
      | c # cs \<Rightarrow>
          if c = CHR ''0'' \<and> cs \<noteq> [] then None
          else (case decimalValue name 0 of
                  None \<Rightarrow> None
                | Some k \<Rightarrow> if k < 4294967295 then Some k else None))"

definition indexKey :: "string \<times> 'a \<Rightarrow> nat" where
  "indexKey entry = (case arrayIndex (fst entry) of None \<Rightarrow> 0 | Some k \<Rightarrow> k)"

definition forInOrder :: "(string \<times> 'a) list \<Rightarrow> (string \<times> 'a) list" where
  "forInOrder declared =
     sort_key indexKey (filter (\<lambda>entry. arrayIndex (fst entry) \<noteq> None) declared) @
     filter (\<lambda>entry. arrayIndex (fst entry) = None) declared"

record RegisterDecoratorMeta =
  publicMethods :: "string list option"
  publicProps :: "(string \<times> PropCompilerDef) list option"
  track :: "(string \<times> nat) list option"
  wire :: "(string \<times> WireCompilerDef) list option"
  reg_fields :: "string list option"

text \<open>
  The member \<^verbatim>\<open>fields\<close> of both metadata types is named \<open>reg_fields\<close> in the
  compiler's record and \<open>meta_fields\<close> in the resolved one. The latter is optional:
  \<open>NoFieldsEntry\<close> is an object without the key,
  \<open>FieldsEntry None\<close> an object whose key \<^verbatim>\<open>fields\<close> holds \<^verbatim>\<open>undefined\<close>.
\<close>

datatype fieldsEntry = NoFieldsEntry | FieldsEntry "string list option"

record DecoratorMeta =
  apiMethods :: "string list"
  apiFields :: "string list"
  wiredMethods :: "string list"
  wiredFields :: "string list"
  meta_fields :: fieldsEntry

section \<open>Program state and collaborators\<close>

text \<open>
  A call received by the wiring subsystem, with its arguments.
\<close>

datatype wiringCall =
  StoreWiredMethodMeta ComponentConstructor string WireAdapterConstructor jsval ConfigCallback
| StoreWiredFieldMeta ComponentConstructor string WireAdapterConstructor ConfigCallback

text \<open>
  The state the registration code reads and writes: the own properties of every class's
  prototype object and whether that object is extensible, the \<^verbatim>\<open>DecoratorMeta\<close>
  objects allocated so far, the module-level map
  \<^verbatim>\<open>signedDecoratorToMetaMap\<close> from constructors to references of such objects, and the
  wiring table. Reference \<open>0\<close> is the module constant \<^verbatim>\<open>defaultMeta\<close>; the object
  allocated \<open>k\<close>-th (from 0) has reference \<open>Suc k\<close>.
\<close>

record state =
  prototype :: "ComponentConstructor \<Rightarrow> string \<rightharpoonup> PropertyDescriptor"
  extensible :: "ComponentConstructor \<Rightarrow> bool"
  metaObjects :: "DecoratorMeta list"
  signedDecoratorToMetaMap :: "ComponentConstructor \<rightharpoonup> nat"
  wiringTable :: "wiringCall list"

text \<open>
  What the code takes from outside the file: the build mode
  (\<^verbatim>\<open>process.env.NODE_ENV === 'production'\<close>), the text \<^verbatim>\<open>${Ctor}\<close> of a constructor, the
  result of a property read on the prototype that an own data property does not answer
  (an inherited member or a getter's result), and the four descriptor factories, each
  yielding the getter, the setter and the attributes \<^verbatim>\<open>enumerable\<close> and
  \<^verbatim>\<open>configurable\<close> of the descriptor it returns. \<^verbatim>\<open>createPublicAccessorDescriptor\<close>
  receives the descriptor read from the prototype (possibly \<^verbatim>\<open>undefined\<close>) and may
  throw.
\<close>

record env =
  production :: bool
  ctorToString :: "ComponentConstructor \<Rightarrow> string"
  readThrough :: "ComponentConstructor \<Rightarrow> string \<Rightarrow> PropertyDescriptor option \<Rightarrow> jsval"
  createPublicPropertyDescriptor :: "string \<Rightarrow> jsval \<times> jsval \<times> bool \<times> bool"
  createPublicAccessorDescriptor ::
    "string \<Rightarrow> PropertyDescriptor option \<Rightarrow> error + jsval \<times> jsval \<times> bool \<times> bool"
  internalWireFieldDecorator :: "string \<Rightarrow> jsval \<times> jsval \<times> bool \<times> bool"
  internalTrackDecorator :: "string \<Rightarrow> jsval \<times> jsval \<times> bool \<times> bool"

text \<open>
  Modelled from the spec: the descriptor factories are in \<^verbatim>\<open>./api\<close>, \<^verbatim>\<open>./wire\<close> and
  \<^verbatim>\<open>./track\<close>, not among the sources. Each "produces a get/set pair" (a "get/set
  descriptor"), "configurable/enumerable consistent with standard public field
  visibility": what a factory returns is the accessor descriptor with the getter, the
  setter and the two attributes that the parameter yields.
\<close>

definition accessorOf :: "jsval \<times> jsval \<times> bool \<times> bool \<Rightarrow> PropertyDescriptor" where
  "accessorOf p =
     AccessorDescriptor (fst p) (fst (snd p)) (fst (snd (snd p))) (snd (snd (snd p)))"

definition getOwnPropertyDescriptor ::
  "(string \<rightharpoonup> PropertyDescriptor) \<Rightarrow> string \<Rightarrow> PropertyDescriptor option" where
  "getOwnPropertyDescriptor proto name = proto name"

text \<open>
  \<^verbatim>\<open>Object.defineProperty\<close> with a descriptor that carries all attributes of its kind.
  On a member that is not configurable the redefinition is accepted only if it keeps the
  member not configurable, keeps its enumerability and its kind, and changes neither getter
  nor setter of an accessor, or, for a data property that is not writable, neither makes
  it writable nor changes its value.
\<close>

fun redefinitionAllowed :: "PropertyDescriptor \<Rightarrow> PropertyDescriptor \<Rightarrow> bool" where
  "redefinitionAllowed (AccessorDescriptor g st en co) (AccessorDescriptor g' st' en' co') =
     (\<not> co' \<and> en' = en \<and> g' = g \<and> st' = st)"
| "redefinitionAllowed (DataDescriptor v w en co) (DataDescriptor v' w' en' co') =
     (\<not> co' \<and> en' = en \<and> (w \<or> (\<not> w' \<and> v' = v)))"
| "redefinitionAllowed current descriptor = False"

text \<open>
  \<^verbatim>\<open>defineProperty(proto, name, descriptor)\<close> on the prototype of \<open>Ctor\<close>: a new member
  needs an extensible prototype, an existing member must be configurable or the
  redefinition allowed; otherwise the call throws a \<^verbatim>\<open>TypeError\<close> and changes nothing.
\<close>

definition defineProperty ::
  "ComponentConstructor \<Rightarrow> string \<Rightarrow> PropertyDescriptor \<Rightarrow> state \<Rightarrow> error + state" where
  "defineProperty Ctor name descriptor s =
     (if (case prototype s Ctor name of
            None \<Rightarrow> extensible s Ctor
          | Some current \<Rightarrow>
              desc_configurable current \<or> redefinitionAllowed current descriptor)
      then Inr (s\<lparr>prototype := (prototype s)(Ctor := (prototype s Ctor)(name \<mapsto> descriptor))\<rparr>)
      else Inl TypeError)"

text \<open>The property read \<^verbatim>\<open>proto[name]\<close>.\<close>

definition protoGet :: "env \<Rightarrow> state \<Rightarrow> ComponentConstructor \<Rightarrow> string \<Rightarrow> jsval" where
  "protoGet e s Ctor name =
     (case prototype s Ctor name of
        Some (DataDescriptor v w en co) \<Rightarrow> v
      | d \<Rightarrow> readThrough e Ctor name d)"

text \<open>
  Modelled from the spec: \<^verbatim>\<open>storeWiredMethodMeta\<close> and \<^verbatim>\<open>storeWiredFieldMeta\<close> are in
  the wiring module, which is not among the sources; they "register, in an external
  per-class wiring table" the binding they are given. The table is the sequence of the
  calls received.
\<close>

definition storeWiredMethodMeta ::
  "ComponentConstructor \<Rightarrow> string \<Rightarrow> WireAdapterConstructor \<Rightarrow> jsval \<Rightarrow> ConfigCallback \<Rightarrow>
   state \<Rightarrow> state" where
  "storeWiredMethodMeta Ctor name adapter method configCallback s =
     s\<lparr>wiringTable := wiringTable s @ [StoreWiredMethodMeta Ctor name adapter method configCallback]\<rparr>"

definition storeWiredFieldMeta ::
  "ComponentConstructor \<Rightarrow> string \<Rightarrow> WireAdapterConstructor \<Rightarrow> ConfigCallback \<Rightarrow>
   state \<Rightarrow> state" where
  "storeWiredFieldMeta Ctor name adapter configCallback s =
     s\<lparr>wiringTable := wiringTable s @ [StoreWiredFieldMeta Ctor name adapter configCallback]\<rparr>"

section \<open>Development-mode validation\<close>

definition validateObservedField ::
  "env \<Rightarrow> state \<Rightarrow> ComponentConstructor \<Rightarrow> string \<Rightarrow> error + unit" where
  "validateObservedField e s Ctor fieldName =
     (if \<not> production e then
        (case getOwnPropertyDescriptor (prototype s Ctor) fieldName of
           Some descriptor \<Rightarrow>
             assert_fail (''Compiler Error: Invalid field '' @ fieldName @ '' declaration.'')
         | None \<Rightarrow> Inr ())
      else Inr ())"

definition validateFieldDecoratedWithTrack ::
  "env \<Rightarrow> state \<Rightarrow> ComponentConstructor \<Rightarrow> string \<Rightarrow> error + unit" where
  "validateFieldDecoratedWithTrack e s Ctor fieldName =
     (if \<not> production e then
        (case getOwnPropertyDescriptor (prototype s Ctor) fieldName of
           Some descriptor \<Rightarrow>
             assert_fail (''Compiler Error: Invalid @track '' @ fieldName @ '' declaration.'')
         | None \<Rightarrow> Inr ())
      else Inr ())"

definition validateFieldDecoratedWithWire ::
  "env \<Rightarrow> state \<Rightarrow> ComponentConstructor \<Rightarrow> string \<Rightarrow> error + unit" where
  "validateFieldDecoratedWithWire e s Ctor fieldName =
     (if \<not> production e then
        (case getOwnPropertyDescriptor (prototype s Ctor) fieldName of
           Some descriptor \<Rightarrow>
             assert_fail
               (''Compiler Error: Invalid @wire(...) '' @ fieldName @ '' field declaration.'')
         | None \<Rightarrow> Inr ())
      else Inr ())"

definition validateMethodDecoratedWithWire ::
  "env \<Rightarrow> state \<Rightarrow> ComponentConstructor \<Rightarrow> string \<Rightarrow> error + unit" where
  "validateMethodDecoratedWithWire e s Ctor methodName =
     (if \<not> production e then
        (case getOwnPropertyDescriptor (prototype s Ctor) methodName of
           None \<Rightarrow>
             assert_fail
               (''Compiler Error: Invalid @wire(...) '' @ methodName @ '' method declaration.'')
         | Some descriptor \<Rightarrow>
             if \<not> isFunction (desc_value descriptor) \<or> isFalse (desc_writable descriptor)
             then assert_fail
               (''Compiler Error: Invalid @wire(...) '' @ methodName @ '' method declaration.'')
             else Inr ())
      else Inr ())"

definition validateFieldDecoratedWithApi ::
  "env \<Rightarrow> state \<Rightarrow> ComponentConstructor \<Rightarrow> string \<Rightarrow> error + unit" where
  "validateFieldDecoratedWithApi e s Ctor fieldName =
     (if \<not> production e then
        (case getOwnPropertyDescriptor (prototype s Ctor) fieldName of
           Some descriptor \<Rightarrow>
             assert_fail (''Compiler Error: Invalid @api '' @ fieldName @ '' field declaration.'')
         | None \<Rightarrow> Inr ())
      else Inr ())"

definition validateAccessorDecoratedWithApi ::
  "env \<Rightarrow> state \<Rightarrow> ComponentConstructor \<Rightarrow> string \<Rightarrow> error + unit" where
  "validateAccessorDecoratedWithApi e s Ctor fieldName =
     (if \<not> production e then
        (case getOwnPropertyDescriptor (prototype s Ctor) fieldName of
           None \<Rightarrow>
             assert_fail
               (''Compiler Error: Invalid @api get '' @ fieldName @ '' accessor declaration.'')
         | Some descriptor \<Rightarrow>
             if isFunction (desc_set descriptor) then
               assert_isTrue (isFunction (desc_get descriptor))
                 (''Compiler Error: Missing getter for property '' @ fieldName @
                  '' decorated with @api in '' @ ctorToString e Ctor @
                  ''. You cannot have a setter without the corresponding getter.'')
             else if \<not> isFunction (desc_get descriptor) then
               assert_fail
                 (''Compiler Error: Missing @api get '' @ fieldName @ '' accessor declaration.'')
             else Inr ())
      else Inr ())"

definition validateMethodDecoratedWithApi ::
  "env \<Rightarrow> state \<Rightarrow> ComponentConstructor \<Rightarrow> string \<Rightarrow> error + unit" where
  "validateMethodDecoratedWithApi e s Ctor methodName =
     (if \<not> production e then
        (case getOwnPropertyDescriptor (prototype s Ctor) methodName of
           None \<Rightarrow>
             assert_fail (''Compiler Error: Invalid @api '' @ methodName @ '' method declaration.'')
         | Some descriptor \<Rightarrow>
             if \<not> isFunction (desc_value descriptor) \<or> isFalse (desc_writable descriptor)
             then assert_fail
               (''Compiler Error: Invalid @api '' @ methodName @ '' method declaration.'')
             else Inr ())
      else Inr ())"

section \<open>The registry\<close>

definition defaultMeta :: DecoratorMeta where
  "defaultMeta =
     \<lparr>apiMethods = [], apiFields = [], wiredMethods = [], wiredFields = [],
      meta_fields = NoFieldsEntry\<rparr>"

definition defaultMetaRef :: nat where
  "defaultMetaRef = 0"

text \<open>The object a reference denotes; \<open>None\<close> for a reference never handed out.\<close>

fun metaAt :: "state \<Rightarrow> nat \<Rightarrow> DecoratorMeta option" where
  "metaAt s 0 = Some defaultMeta"
| "metaAt s (Suc k) = (if k < length (metaObjects s) then Some (metaObjects s ! k) else None)"

text \<open>An object literal of type \<^verbatim>\<open>DecoratorMeta\<close>: a new object and its reference.\<close>

definition newDecoratorMeta :: "DecoratorMeta \<Rightarrow> state \<Rightarrow> nat \<times> state" where
  "newDecoratorMeta m s = (Suc (length (metaObjects s)), s\<lparr>metaObjects := metaObjects s @ [m]\<rparr>)"

definition setDecoratorsMeta :: "ComponentConstructor \<Rightarrow> nat \<Rightarrow> state \<Rightarrow> state" where
  "setDecoratorsMeta Ctor meta s =
     s\<lparr>signedDecoratorToMetaMap := (signedDecoratorToMetaMap s)(Ctor \<mapsto> meta)\<rparr>"

definition getDecoratorsMeta :: "state \<Rightarrow> ComponentConstructor \<Rightarrow> nat" where
  "getDecoratorsMeta s Ctor =
     (case signedDecoratorToMetaMap s Ctor of
        None \<Rightarrow> defaultMetaRef
      | Some meta \<Rightarrow> meta)"

section \<open>Registration\<close>

text \<open>
  Each loop of \<^verbatim>\<open>registerDecorators\<close> is a recursive function over the entries, with the
  list being built as an accumulator and the state threaded through. A failed loop returns
  the error together with the state at the moment of the throw: what the completed
  iterations left and, for a wired field whose \<^verbatim>\<open>defineProperty\<close> throws, the call of
  \<^verbatim>\<open>storeWiredFieldMeta\<close> that precedes it.
\<close>

definition publicPropStep ::
  "env \<Rightarrow> ComponentConstructor \<Rightarrow> string \<Rightarrow> PropCompilerDef \<Rightarrow> state \<Rightarrow> error + state" where
  "publicPropStep e Ctor fieldName propConfig s =
     (if propTypeValue (prop_config propConfig) > 0 then
        (case (if \<not> production e then validateAccessorDecoratedWithApi e s Ctor fieldName
               else Inr ()) of
           Inl err \<Rightarrow> Inl err
         | Inr u \<Rightarrow>
             (case createPublicAccessorDescriptor e fieldName
                     (getOwnPropertyDescriptor (prototype s Ctor) fieldName) of
                Inl err \<Rightarrow> Inl err
              | Inr descriptor \<Rightarrow> defineProperty Ctor fieldName (accessorOf descriptor) s))
      else
        (case (if \<not> production e then validateFieldDecoratedWithApi e s Ctor fieldName
               else Inr ()) of
           Inl err \<Rightarrow> Inl err
         | Inr u \<Rightarrow>
             defineProperty Ctor fieldName
               (accessorOf (createPublicPropertyDescriptor e fieldName)) s))"

fun publicPropsLoop ::
  "env \<Rightarrow> ComponentConstructor \<Rightarrow> (string \<times> PropCompilerDef) list \<Rightarrow> string list \<Rightarrow> state \<Rightarrow>
   (error + string list) \<times> state" where
  "publicPropsLoop e Ctor [] apiFieldsAcc s = (Inr apiFieldsAcc, s)"
| "publicPropsLoop e Ctor ((fieldName, propConfig) # rest) apiFieldsAcc s =
     (case publicPropStep e Ctor fieldName propConfig s of
        Inl err \<Rightarrow> (Inl err, s)
      | Inr s' \<Rightarrow> publicPropsLoop e Ctor rest (apiFieldsAcc @ [fieldName]) s')"

fun publicMethodsLoop ::
  "env \<Rightarrow> ComponentConstructor \<Rightarrow> string list \<Rightarrow> string list \<Rightarrow> state \<Rightarrow> error + string list" where
  "publicMethodsLoop e Ctor [] apiMethodsAcc s = Inr apiMethodsAcc"
| "publicMethodsLoop e Ctor (methodName # rest) apiMethodsAcc s =
     (case (if \<not> production e then validateMethodDecoratedWithApi e s Ctor methodName
            else Inr ()) of
        Inl err \<Rightarrow> Inl err
      | Inr u \<Rightarrow> publicMethodsLoop e Ctor rest (apiMethodsAcc @ [methodName]) s)"

text \<open>
  The body of the loop over \<^verbatim>\<open>wire\<close>; the accumulator is the pair
  (\<^verbatim>\<open>wiredMethods\<close>, \<^verbatim>\<open>wiredFields\<close>).
\<close>

definition wireStep ::
  "env \<Rightarrow> ComponentConstructor \<Rightarrow> string \<Rightarrow> WireCompilerDef \<Rightarrow> string list \<times> string list \<Rightarrow>
   state \<Rightarrow> (error + string list \<times> string list) \<times> state" where
  "wireStep e Ctor fieldOrMethodName def acc s =
     (let adapter = wire_adapter def; method = wire_method def;
          configCallback = wire_config def in
      if method = JNum 1 then
        (case (if \<not> production e then validateMethodDecoratedWithWire e s Ctor fieldOrMethodName
               else Inr ()) of
           Inl err \<Rightarrow> (Inl err, s)
         | Inr u \<Rightarrow>
             (Inr (fst acc @ [fieldOrMethodName], snd acc),
              storeWiredMethodMeta Ctor fieldOrMethodName adapter
                (protoGet e s Ctor fieldOrMethodName) configCallback s))
      else
        (case (if \<not> production e then validateFieldDecoratedWithWire e s Ctor fieldOrMethodName
               else Inr ()) of
           Inl err \<Rightarrow> (Inl err, s)
         | Inr u \<Rightarrow>
             (let s1 = storeWiredFieldMeta Ctor fieldOrMethodName adapter configCallback s in
              case defineProperty Ctor fieldOrMethodName
                     (accessorOf (internalWireFieldDecorator e fieldOrMethodName)) s1 of
                Inl err \<Rightarrow> (Inl err, s1)
              | Inr s2 \<Rightarrow> (Inr (fst acc, snd acc @ [fieldOrMethodName]), s2))))"

fun wireLoop ::
  "env \<Rightarrow> ComponentConstructor \<Rightarrow> (string \<times> WireCompilerDef) list \<Rightarrow> string list \<times> string list \<Rightarrow>
   state \<Rightarrow> (error + string list \<times> string list) \<times> state" where
  "wireLoop e Ctor [] acc s = (Inr acc, s)"
| "wireLoop e Ctor ((fieldOrMethodName, def) # rest) acc s =
     (case wireStep e Ctor fieldOrMethodName def acc s of
        (Inl err, s') \<Rightarrow> (Inl err, s')
      | (Inr acc', s') \<Rightarrow> wireLoop e Ctor rest acc' s')"

fun trackLoop ::
  "env \<Rightarrow> ComponentConstructor \<Rightarrow> (string \<times> nat) list \<Rightarrow> state \<Rightarrow> (error + unit) \<times> state" where
  "trackLoop e Ctor [] s = (Inr (), s)"
| "trackLoop e Ctor ((fieldName, one) # rest) s =
     (case (if \<not> production e then validateFieldDecoratedWithTrack e s Ctor fieldName
            else Inr ()) of
        Inl err \<Rightarrow> (Inl err, s)
      | Inr u \<Rightarrow>
          (case defineProperty Ctor fieldName
                  (accessorOf (internalTrackDecorator e fieldName)) s of
             Inl err \<Rightarrow> (Inl err, s)
           | Inr s' \<Rightarrow> trackLoop e Ctor rest s'))"

fun fieldsLoop :: "env \<Rightarrow> ComponentConstructor \<Rightarrow> string list \<Rightarrow> state \<Rightarrow> error + unit" where
  "fieldsLoop e Ctor [] s = Inr ()"
| "fieldsLoop e Ctor (fieldName # rest) s =
     (case (if \<not> production e then validateObservedField e s Ctor fieldName else Inr ()) of
        Inl err \<Rightarrow> Inl err
      | Inr u \<Rightarrow> fieldsLoop e Ctor rest s)"

text \<open>
  \<^verbatim>\<open>registerDecorators(Ctor, meta)\<close>: the five categories in the order of the source, then
  the new \<^verbatim>\<open>DecoratorMeta\<close> object is stored. The result is the outcome (the error thrown,
  or the constructor returned) and the state left behind.
\<close>

definition registerDecorators ::
  "env \<Rightarrow> ComponentConstructor \<Rightarrow> RegisterDecoratorMeta \<Rightarrow> state \<Rightarrow>
   (error + ComponentConstructor) \<times> state" where
  "registerDecorators e Ctor meta s =
     (case (case publicProps meta of
              None \<Rightarrow> (Inr [], s)
            | Some props \<Rightarrow> publicPropsLoop e Ctor props [] s) of
        (Inl err, s1) \<Rightarrow> (Inl err, s1)
      | (Inr apiFieldsR, s1) \<Rightarrow>
     (case (case publicMethods meta of
              None \<Rightarrow> Inr []
            | Some methods \<Rightarrow> publicMethodsLoop e Ctor methods [] s1) of
        Inl err \<Rightarrow> (Inl err, s1)
      | Inr apiMethodsR \<Rightarrow>
     (case (case wire meta of
              None \<Rightarrow> (Inr ([], []), s1)
            | Some wires \<Rightarrow> wireLoop e Ctor wires ([], []) s1) of
        (Inl err, s2) \<Rightarrow> (Inl err, s2)
      | (Inr (wiredMethodsR, wiredFieldsR), s2) \<Rightarrow>
     (case (case track meta of
              None \<Rightarrow> (Inr (), s2)
            | Some tracked \<Rightarrow> trackLoop e Ctor tracked s2) of
        (Inl err, s3) \<Rightarrow> (Inl err, s3)
      | (Inr u, s3) \<Rightarrow>
     (case (case reg_fields meta of
              None \<Rightarrow> Inr ()
            | Some observed \<Rightarrow> fieldsLoop e Ctor observed s3) of
        Inl err \<Rightarrow> (Inl err, s3)
      | Inr u' \<Rightarrow>
          (let (ref, s4) =
                 newDecoratorMeta
                   \<lparr>apiMethods = apiMethodsR, apiFields = apiFieldsR,
                    wiredMethods = wiredMethodsR, wiredFields = wiredFieldsR,
                    meta_fields = FieldsEntry (reg_fields meta)\<rparr> s3
           in (Inr Ctor, setDecoratorsMeta Ctor ref s4)))))))"

section \<open>Initial state, call histories and the metadata as specified\<close>

text \<open>
  The module is loaded with an empty \<^verbatim>\<open>signedDecoratorToMetaMap\<close>, no \<^verbatim>\<open>DecoratorMeta\<close>
  object but \<^verbatim>\<open>defaultMeta\<close>, and an empty wiring table; the classes are given by their
  prototypes: the own members and whether the object is extensible.
\<close>

definition initialState ::
  "(ComponentConstructor \<Rightarrow> string \<rightharpoonup> PropertyDescriptor) \<Rightarrow> (ComponentConstructor \<Rightarrow> bool) \<Rightarrow>
   state" where
  "initialState protos ext =
     \<lparr>prototype = protos, extensible = ext, metaObjects = [],
      signedDecoratorToMetaMap = Map.empty, wiringTable = []\<rparr>"

text \<open>
  A history of calls of \<^verbatim>\<open>registerDecorators\<close>, each on the state its predecessor left,
  whether it returned or threw.
\<close>

fun registerAll ::
  "env \<Rightarrow> (ComponentConstructor \<times> RegisterDecoratorMeta) list \<Rightarrow> state \<Rightarrow> state" where
  "registerAll e [] s = s"
| "registerAll e ((Ctor, meta) # calls) s =
     registerAll e calls (snd (registerDecorators e Ctor meta s))"

text \<open>
  The resolved metadata in the words of the specification: \<^verbatim>\<open>apiFields\<close> and
  \<^verbatim>\<open>apiMethods\<close> list the declared public properties and methods in declaration order,
  \<^verbatim>\<open>wiredMethods\<close> the wire entries whose method flag is set (the number 1) and
  \<^verbatim>\<open>wiredFields\<close> the other wire entries, and the observed fields are "passed through
  unchanged". It is compared with what the code stores.
\<close>

definition resolvedMeta :: "RegisterDecoratorMeta \<Rightarrow> DecoratorMeta" where
  "resolvedMeta meta =
     \<lparr>apiMethods = (case publicMethods meta of None \<Rightarrow> [] | Some methods \<Rightarrow> methods),
      apiFields = (case publicProps meta of None \<Rightarrow> [] | Some props \<Rightarrow> map fst props),
      wiredMethods = (case wire meta of None \<Rightarrow> []
         | Some wires \<Rightarrow> map fst (filter (\<lambda>(n, d). wire_method d = JNum 1) wires)),
      wiredFields = (case wire meta of None \<Rightarrow> []
         | Some wires \<Rightarrow> map fst (filter (\<lambda>(n, d). wire_method d \<noteq> JNum 1) wires)),
      meta_fields = FieldsEntry (reg_fields meta)\<rparr>"

text \<open>
  The check on a method in the words of the specification, negated: it "requires an own
  descriptor whose value is a function and whose \<^verbatim>\<open>writable\<close> attribute is not explicitly
  \<^verbatim>\<open>false\<close>".
\<close>

definition notAWritableMethod :: "PropertyDescriptor option \<Rightarrow> bool" where
  "notAWritableMethod p =
     (case p of
        None \<Rightarrow> True
      | Some descriptor \<Rightarrow>
          \<not> isFunction (desc_value descriptor) \<or> isFalse (desc_writable descriptor))"


section \<open>Sample classes\<close>

text \<open>
  A development build and a production build with the same collaborators, and a class
  \<open>0\<close> whose prototype has a method \<^verbatim>\<open>foo\<close>, a
  getter/setter pair \<^verbatim>\<open>acc\<close> and a setter without getter \<^verbatim>\<open>setonly\<close>, all
  configurable and not enumerable as a class body defines them; a class \<open>3\<close> whose only
  member \<^verbatim>\<open>foo\<close> is a function with \<^verbatim>\<open>writable: false\<close>, and a class \<open>4\<close> whose only
  member \<^verbatim>\<open>foo\<close> is a writable function, both not configurable; every other class has an
  empty prototype, and every prototype is extensible.
\<close>

definition devEnv :: env where
  "devEnv =
     \<lparr>production = False,
      ctorToString = (\<lambda>c. ''class C {}''),
      readThrough = (\<lambda>c n d. JUndefined),
      createPublicPropertyDescriptor = (\<lambda>n. (JFun 100, JFun 101, True, True)),
      createPublicAccessorDescriptor =
        (\<lambda>n d. case d of None \<Rightarrow> Inl (Thrown ''no descriptor'')
               | Some x \<Rightarrow> Inr (JFun 102, JFun 103, desc_enumerable x, desc_configurable x)),
      internalWireFieldDecorator = (\<lambda>n. (JFun 104, JFun 105, True, True)),
      internalTrackDecorator = (\<lambda>n. (JFun 106, JFun 107, True, True))\<rparr>"

definition prodEnv :: env where
  "prodEnv = devEnv\<lparr>production := True\<rparr>"

definition sampleProtos :: "ComponentConstructor \<Rightarrow> string \<rightharpoonup> PropertyDescriptor" where
  "sampleProtos c =
     (if c = 0 then
        [''foo'' \<mapsto> DataDescriptor (JFun 1) True False True,
         ''acc'' \<mapsto> AccessorDescriptor (JFun 3) (JFun 4) False True,
         ''setonly'' \<mapsto> AccessorDescriptor JUndefined (JFun 5) False True]
      else if c = 3 then [''foo'' \<mapsto> DataDescriptor (JFun 6) False False False]
      else if c = 4 then [''foo'' \<mapsto> DataDescriptor (JFun 8) True False False]
      else Map.empty)"

definition sampleExt :: "ComponentConstructor \<Rightarrow> bool" where
  "sampleExt c = True"

definition noMeta :: RegisterDecoratorMeta where
  "noMeta =
     \<lparr>publicMethods = None, publicProps = None, track = None, wire = None, reg_fields = None\<rparr>"

definition metaA :: RegisterDecoratorMeta where
  "metaA =
     \<lparr>publicMethods = Some [''foo''],
      publicProps = Some [(''x'', \<lparr>prop_config = Field, prop_type = ''any''\<rparr>),
                          (''acc'', \<lparr>prop_config = GetSet, prop_type = ''any''\<rparr>)],
      track = Some [(''z'', 1)],
      wire = Some [(''y'', \<lparr>wire_method = JUndefined, wire_adapter = 7, wire_config = 8\<rparr>),
                   (''foo'', \<lparr>wire_method = JNum 1, wire_adapter = 9, wire_config = 10\<rparr>)],
      reg_fields = Some [''w'']\<rparr>"

definition metaB :: RegisterDecoratorMeta where
  "metaB =
     \<lparr>publicMethods = None,
      publicProps = Some [(''v'', \<lparr>prop_config = Field, prop_type = ''any''\<rparr>)],
      track = None, wire = None, reg_fields = None\<rparr>"

definition metaC :: RegisterDecoratorMeta where
  "metaC =
     \<lparr>publicMethods = None,
      publicProps = Some [(''x'', \<lparr>prop_config = Field, prop_type = ''any''\<rparr>),
                          (''missing'', \<lparr>prop_config = Get, prop_type = ''any''\<rparr>)],
      track = None, wire = None, reg_fields = None\<rparr>"

definition metaD :: RegisterDecoratorMeta where
  "metaD =
     \<lparr>publicMethods = None,
      publicProps = Some [(''setonly'', \<lparr>prop_config = Set, prop_type = ''any''\<rparr>)],
      track = None, wire = None, reg_fields = None\<rparr>"

definition declaredProps :: "(string \<times> PropCompilerDef) list" where
  "declaredProps =
     [(''b'', \<lparr>prop_config = Field, prop_type = ''any''\<rparr>),
      (''2'', \<lparr>prop_config = Field, prop_type = ''any''\<rparr>),
      (''a'', \<lparr>prop_config = Field, prop_type = ''any''\<rparr>),
      (''1'', \<lparr>prop_config = Field, prop_type = ''any''\<rparr>)]"

definition metaF :: RegisterDecoratorMeta where
  "metaF =
     \<lparr>publicMethods = None, publicProps = Some (forInOrder declaredProps), track = None,
      wire = None, reg_fields = None\<rparr>"

definition wireOnly :: "string \<Rightarrow> jsval \<Rightarrow> RegisterDecoratorMeta" where
  "wireOnly name flag =
     \<lparr>publicMethods = None, publicProps = None, track = None,
      wire = Some [(name, \<lparr>wire_method = flag, wire_adapter = 7, wire_config = 8\<rparr>)],
      reg_fields = None\<rparr>"

definition metaE :: RegisterDecoratorMeta where
  "metaE =
     \<lparr>publicMethods = Some [''foo''], publicProps = None, track = None, wire = None,
      reg_fields = None\<rparr>"

section \<open>Auxiliary facts\<close>

lemmas validate_defs = validateObservedField_def validateFieldDecoratedWithTrack_def
  validateFieldDecoratedWithWire_def validateMethodDecoratedWithWire_def
  validateFieldDecoratedWithApi_def validateAccessorDecoratedWithApi_def
  validateMethodDecoratedWithApi_def assert_fail_def assert_isTrue_def
  getOwnPropertyDescriptor_def

lemmas run_defs = registerDecorators_def publicPropStep_def wireStep_def defineProperty_def
  storeWiredMethodMeta_def storeWiredFieldMeta_def protoGet_def accessorOf_def
  newDecoratorMeta_def setDecoratorsMeta_def getDecoratorsMeta_def defaultMetaRef_def
  validate_defs

lemmas sample_defs = devEnv_def prodEnv_def sampleProtos_def sampleExt_def noMeta_def
  metaA_def initialState_def Let_def

subsection \<open>The loops leave the registry alone\<close>

lemma defineProperty_Inr:
  "defineProperty Ctor name d s = Inr s' \<Longrightarrow>
     s' = s\<lparr>prototype := (prototype s)(Ctor := (prototype s Ctor)(name \<mapsto> d))\<rparr>"
  by (simp add: defineProperty_def split: if_splits)

lemma defineProperty_Inl: "defineProperty Ctor name d s = Inl err \<Longrightarrow> err = TypeError"
  by (simp add: defineProperty_def split: if_splits)

lemma publicPropStep_keeps:
  "publicPropStep e Ctor n d s = Inr s' \<Longrightarrow>
     signedDecoratorToMetaMap s' = signedDecoratorToMetaMap s \<and> metaObjects s' = metaObjects s
     \<and> wiringTable s' = wiringTable s"
  by (auto simp: publicPropStep_def dest!: defineProperty_Inr split: if_splits sum.splits)

lemma publicPropsLoop_keeps:
  "publicPropsLoop e Ctor props acc s = (r, s') \<Longrightarrow>
     signedDecoratorToMetaMap s' = signedDecoratorToMetaMap s \<and> metaObjects s' = metaObjects s
     \<and> wiringTable s' = wiringTable s"
proof (induction props arbitrary: acc s)
  case Nil
  then show ?case by simp
next
  case (Cons p props)
  obtain n d where p: "p = (n, d)" by (cases p)
  show ?case
  proof (cases "publicPropStep e Ctor n d s")
    case (Inl err)
    with Cons.prems p show ?thesis by simp
  next
    case (Inr s1)
    with Cons.prems p have "publicPropsLoop e Ctor props (acc @ [n]) s1 = (r, s')" by simp
    from Cons.IH [OF this] publicPropStep_keeps [OF Inr] show ?thesis by simp
  qed
qed

lemma publicPropsLoop_result:
  "publicPropsLoop e Ctor props acc s = (Inr r, s') \<Longrightarrow> r = acc @ map fst props"
proof (induction props arbitrary: acc s)
  case Nil
  then show ?case by simp
next
  case (Cons p props)
  obtain n d where p: "p = (n, d)" by (cases p)
  from Cons.prems p obtain s1 where "publicPropStep e Ctor n d s = Inr s1"
    and "publicPropsLoop e Ctor props (acc @ [n]) s1 = (Inr r, s')"
    by (auto split: sum.splits)
  from Cons.IH [OF this(2)] p show ?case by simp
qed

lemma publicMethodsLoop_result:
  "publicMethodsLoop e Ctor ms acc s = Inr r \<Longrightarrow> r = acc @ ms"
proof (induction ms arbitrary: acc)
  case Nil
  then show ?case by simp
next
  case (Cons m ms)
  from Cons.prems have "publicMethodsLoop e Ctor ms (acc @ [m]) s = Inr r"
    by (simp split: sum.splits)
  from Cons.IH [OF this] show ?case by simp
qed

lemma wireStep_keeps:
  "wireStep e Ctor n d acc s = (r, s') \<Longrightarrow>
     signedDecoratorToMetaMap s' = signedDecoratorToMetaMap s \<and> metaObjects s' = metaObjects s"
  by (auto simp: wireStep_def storeWiredMethodMeta_def storeWiredFieldMeta_def Let_def
        dest!: defineProperty_Inr split: if_splits sum.splits)

lemma wireLoop_keeps:
  "wireLoop e Ctor ws acc s = (r, s') \<Longrightarrow>
     signedDecoratorToMetaMap s' = signedDecoratorToMetaMap s \<and> metaObjects s' = metaObjects s"
proof (induction ws arbitrary: acc s)
  case Nil
  then show ?case by simp
next
  case (Cons p ws)
  obtain n d where p: "p = (n, d)" by (cases p)
  obtain r1 s1 where step: "wireStep e Ctor n d acc s = (r1, s1)" by (metis surj_pair)
  show ?case
  proof (cases r1)
    case (Inl err)
    with Cons.prems p step wireStep_keeps [OF step] show ?thesis by auto
  next
    case (Inr acc1)
    with step Cons.prems p have "wireLoop e Ctor ws acc1 s1 = (r, s')" by simp
    from Cons.IH [OF this] wireStep_keeps [OF step] show ?thesis by simp
  qed
qed

lemma trackLoop_keeps:
  "trackLoop e Ctor ts s = (r, s') \<Longrightarrow>
     signedDecoratorToMetaMap s' = signedDecoratorToMetaMap s \<and> metaObjects s' = metaObjects s
     \<and> wiringTable s' = wiringTable s"
proof (induction ts arbitrary: s)
  case Nil
  then show ?case by simp
next
  case (Cons p ts)
  obtain n k where p: "p = (n, k)" by (cases p)
  show ?case
  proof (cases "if \<not> production e then validateFieldDecoratedWithTrack e s Ctor n else Inr ()")
    case (Inl err)
    with Cons.prems p show ?thesis by simp
  next
    case (Inr u)
    note valid = Inr
    show ?thesis
    proof (cases "defineProperty Ctor n (accessorOf (internalTrackDecorator e n)) s")
      case (Inl err)
      with valid Cons.prems p show ?thesis by simp
    next
      case (Inr s1)
      with valid Cons.prems p have "trackLoop e Ctor ts s1 = (r, s')" by simp
      from Cons.IH [OF this] defineProperty_Inr [OF Inr] show ?thesis by simp
    qed
  qed
qed

subsection \<open>What a registration that returns has stored\<close>

lemma registerDecorators_InrE:
  assumes "registerDecorators e Ctor meta s = (Inr c, s')"
  obtains af s1 am wm wf s2 s3 where
    "(case publicProps meta of None \<Rightarrow> (Inr [], s)
      | Some props \<Rightarrow> publicPropsLoop e Ctor props [] s) = (Inr af, s1)"
    "(case publicMethods meta of None \<Rightarrow> Inr []
      | Some methods \<Rightarrow> publicMethodsLoop e Ctor methods [] s1) = Inr am"
    "(case wire meta of None \<Rightarrow> (Inr ([], []), s1)
      | Some wires \<Rightarrow> wireLoop e Ctor wires ([], []) s1) = (Inr (wm, wf), s2)"
    "(case track meta of None \<Rightarrow> (Inr (), s2)
      | Some tracked \<Rightarrow> trackLoop e Ctor tracked s2) = (Inr (), s3)"
    "(case reg_fields meta of None \<Rightarrow> Inr ()
      | Some observed \<Rightarrow> fieldsLoop e Ctor observed s3) = Inr ()"
    "c = Ctor"
    "s' = setDecoratorsMeta Ctor (Suc (length (metaObjects s3)))
            (s3\<lparr>metaObjects := metaObjects s3 @
               [\<lparr>apiMethods = am, apiFields = af, wiredMethods = wm, wiredFields = wf,
                 meta_fields = FieldsEntry (reg_fields meta)\<rparr>]\<rparr>)"
  using assms unfolding registerDecorators_def newDecoratorMeta_def
  by (auto split: prod.splits sum.splits)

lemma wireStep_result:
  "wireStep e Ctor n d acc s = (Inr acc', s') \<Longrightarrow>
     acc' = (if wire_method d = JNum 1 then (fst acc @ [n], snd acc) else (fst acc, snd acc @ [n]))"
  by (auto simp: wireStep_def Let_def split: if_splits sum.splits)

lemma wireLoop_result:
  "wireLoop e Ctor ws acc s = (Inr acc', s') \<Longrightarrow>
     fst acc' = fst acc @ map fst (filter (\<lambda>(n, d). wire_method d = JNum 1) ws) \<and>
     snd acc' = snd acc @ map fst (filter (\<lambda>(n, d). wire_method d \<noteq> JNum 1) ws)"
proof (induction ws arbitrary: acc s)
  case Nil
  then show ?case by simp
next
  case (Cons p ws)
  obtain n d where p: "p = (n, d)" by (cases p)
  from Cons.prems p obtain acc1 s1 where step: "wireStep e Ctor n d acc s = (Inr acc1, s1)"
    and rest: "wireLoop e Ctor ws acc1 s1 = (Inr acc', s')"
    by (auto split: prod.splits sum.splits)
  from Cons.IH [OF rest] wireStep_result [OF step] p show ?case by simp
qed

lemma registerDecorators_failed_keeps:
  assumes "registerDecorators e Ctor meta s = (Inl err, s')"
  shows "signedDecoratorToMetaMap s' = signedDecoratorToMetaMap s \<and> metaObjects s' = metaObjects s"
proof -
  obtain r1 s1 where p1: "(case publicProps meta of None \<Rightarrow> (Inr [], s)
      | Some props \<Rightarrow> publicPropsLoop e Ctor props [] s) = (r1, s1)" by (metis surj_pair)
  have k1: "signedDecoratorToMetaMap s1 = signedDecoratorToMetaMap s \<and> metaObjects s1 = metaObjects s"
    using p1 publicPropsLoop_keeps by (auto split: option.splits)
  obtain r2 s2 where p2: "(case wire meta of None \<Rightarrow> (Inr ([], []), s1)
      | Some wires \<Rightarrow> wireLoop e Ctor wires ([], []) s1) = (r2, s2)" by (metis surj_pair)
  have k2: "signedDecoratorToMetaMap s2 = signedDecoratorToMetaMap s1 \<and> metaObjects s2 = metaObjects s1"
    using p2 wireLoop_keeps by (auto split: option.splits)
  obtain r3 s3 where p3: "(case track meta of None \<Rightarrow> (Inr (), s2)
      | Some tracked \<Rightarrow> trackLoop e Ctor tracked s2) = (r3, s3)" by (metis surj_pair)
  have k3: "signedDecoratorToMetaMap s3 = signedDecoratorToMetaMap s2 \<and> metaObjects s3 = metaObjects s2"
    using p3 trackLoop_keeps by (auto split: option.splits)
  from assms have "s' = s1 \<or> s' = s2 \<or> s' = s3"
    unfolding registerDecorators_def newDecoratorMeta_def p1
    by (auto simp: p2 p3 split: sum.splits prod.splits)
  with k1 k2 k3 show ?thesis by auto
qed

lemma registerDecorators_stored:
  assumes "registerDecorators e Ctor meta s = (Inr c, s')"
  shows "c = Ctor \<and>
     signedDecoratorToMetaMap s' = (signedDecoratorToMetaMap s)(Ctor \<mapsto> Suc (length (metaObjects s))) \<and>
     metaObjects s' = metaObjects s @ [resolvedMeta meta]"
proof -
  from assms obtain af s1 am wm wf s2 s3 where
    p1: "(case publicProps meta of None \<Rightarrow> (Inr [], s)
      | Some props \<Rightarrow> publicPropsLoop e Ctor props [] s) = (Inr af, s1)" and
    p2: "(case publicMethods meta of None \<Rightarrow> Inr []
      | Some methods \<Rightarrow> publicMethodsLoop e Ctor methods [] s1) = Inr am" and
    p3: "(case wire meta of None \<Rightarrow> (Inr ([], []), s1)
      | Some wires \<Rightarrow> wireLoop e Ctor wires ([], []) s1) = (Inr (wm, wf), s2)" and
    p4: "(case track meta of None \<Rightarrow> (Inr (), s2)
      | Some tracked \<Rightarrow> trackLoop e Ctor tracked s2) = (Inr (), s3)" and
    c: "c = Ctor" and
    s': "s' = setDecoratorsMeta Ctor (Suc (length (metaObjects s3)))
            (s3\<lparr>metaObjects := metaObjects s3 @
               [\<lparr>apiMethods = am, apiFields = af, wiredMethods = wm, wiredFields = wf,
                 meta_fields = FieldsEntry (reg_fields meta)\<rparr>]\<rparr>)"
    by (rule registerDecorators_InrE)
  have k1: "signedDecoratorToMetaMap s1 = signedDecoratorToMetaMap s \<and> metaObjects s1 = metaObjects s"
    using p1 publicPropsLoop_keeps by (auto split: option.splits)
  have k2: "signedDecoratorToMetaMap s2 = signedDecoratorToMetaMap s1 \<and> metaObjects s2 = metaObjects s1"
    using p3 wireLoop_keeps by (auto split: option.splits)
  have k3: "signedDecoratorToMetaMap s3 = signedDecoratorToMetaMap s2 \<and> metaObjects s3 = metaObjects s2"
    using p4 trackLoop_keeps by (auto split: option.splits)
  have af: "af = (case publicProps meta of None \<Rightarrow> [] | Some props \<Rightarrow> map fst props)"
    using p1 publicPropsLoop_result by (fastforce split: option.splits)
  have am: "am = (case publicMethods meta of None \<Rightarrow> [] | Some methods \<Rightarrow> methods)"
    using p2 publicMethodsLoop_result by (fastforce split: option.splits)
  have wm: "wm = (case wire meta of None \<Rightarrow> []
         | Some wires \<Rightarrow> map fst (filter (\<lambda>(n, d). wire_method d = JNum 1) wires))"
    using p3 wireLoop_result by (fastforce split: option.splits)
  have wf: "wf = (case wire meta of None \<Rightarrow> []
         | Some wires \<Rightarrow> map fst (filter (\<lambda>(n, d). wire_method d \<noteq> JNum 1) wires))"
    using p3 wireLoop_result by (fastforce split: option.splits)
  show ?thesis
    unfolding s' c resolvedMeta_def using k1 k2 k3 af am wm wf
    by (simp add: setDecoratorsMeta_def)
qed

lemma registerDecorators_other_entry:
  assumes "c \<noteq> Ctor"
  shows "signedDecoratorToMetaMap (snd (registerDecorators e c meta s)) Ctor =
         signedDecoratorToMetaMap s Ctor"
proof (cases "registerDecorators e c meta s")
  case (Pair r s')
  show ?thesis
  proof (cases r)
    case (Inl err)
    with Pair registerDecorators_failed_keeps [of e c meta s err s'] show ?thesis by simp
  next
    case (Inr c')
    with Pair registerDecorators_stored [of e c meta s c' s'] assms show ?thesis by simp
  qed
qed

lemma registerAll_other_entry:
  "\<forall>(c, m) \<in> set calls. c \<noteq> Ctor \<Longrightarrow>
     signedDecoratorToMetaMap (registerAll e calls s) Ctor = signedDecoratorToMetaMap s Ctor"
proof (induction calls arbitrary: s)
  case Nil
  then show ?case by simp
next
  case (Cons p calls)
  obtain c m where p: "p = (c, m)" by (cases p)
  with Cons.prems have ne: "c \<noteq> Ctor" and rest: "\<forall>(c, m) \<in> set calls. c \<noteq> Ctor" by auto
  from Cons.IH [OF rest] registerDecorators_other_entry [OF ne] p show ?case by simp
qed

lemma registered_meta:
  assumes "registerDecorators e Ctor meta s = (Inr c, s')"
  shows "getDecoratorsMeta s' Ctor = Suc (length (metaObjects s)) \<and>
         metaAt s' (getDecoratorsMeta s' Ctor) = Some (resolvedMeta meta)"
  using registerDecorators_stored [OF assms] by (simp add: getDecoratorsMeta_def)

lemma count_list_distinct:
  "distinct xs \<Longrightarrow> x \<in> set xs \<Longrightarrow> count_list xs x = 1"
  by (induction xs) auto

lemma trackLoop_prototype:
  "trackLoop e Ctor ts s = (Inr u, s') \<Longrightarrow>
     prototype s' Ctor n =
       (if n \<in> fst ` set ts then Some (accessorOf (internalTrackDecorator e n))
        else prototype s Ctor n)"
proof (induction ts arbitrary: s)
  case Nil
  then show ?case by simp
next
  case (Cons p ts)
  obtain m k where p: "p = (m, k)" by (cases p)
  from Cons.prems p obtain s1 where
    def: "defineProperty Ctor m (accessorOf (internalTrackDecorator e m)) s = Inr s1" and
    rest: "trackLoop e Ctor ts s1 = (Inr u, s')"
    by (auto split: sum.splits)
  have "prototype s1 Ctor n =
      (if n = m then Some (accessorOf (internalTrackDecorator e n)) else prototype s Ctor n)"
    using defineProperty_Inr [OF def] by simp
  with Cons.IH [OF rest] p show ?case by auto
qed

subsection \<open>Public properties that validation rejects\<close>

lemma publicPropStep_prototype:
  "publicPropStep e Ctor m d s = Inr s' \<Longrightarrow>
     (\<exists>g st en co. prototype s' Ctor m = Some (AccessorDescriptor g st en co)) \<and>
     (\<forall>n. n \<noteq> m \<longrightarrow> prototype s' Ctor n = prototype s Ctor n)"
  by (auto simp: publicPropStep_def accessorOf_def dest!: defineProperty_Inr
        split: if_splits sum.splits)

lemma publicPropStep_rejects:
  assumes "\<not> production e" and "prop_config d \<noteq> Field"
    and "prototype s Ctor n = None \<or>
         (\<exists>x. prototype s Ctor n = Some x \<and> isFunction (desc_set x) \<and> \<not> isFunction (desc_get x))"
  shows "publicPropStep e Ctor n d s =
     Inl (case prototype s Ctor n of
            None \<Rightarrow> AssertFail
              (''Compiler Error: Invalid @api get '' @ n @ '' accessor declaration.'')
          | Some x \<Rightarrow> AssertIsTrue
              (''Compiler Error: Missing getter for property '' @ n @
               '' decorated with @api in '' @ ctorToString e Ctor @
               ''. You cannot have a setter without the corresponding getter.''))"
proof -
  from assms(2) have k: "0 < propTypeValue (prop_config d)" by (cases "prop_config d") simp_all
  from assms(3) show ?thesis
    using assms(1) k by (auto simp: publicPropStep_def validate_defs)
qed

lemma publicPropsLoop_rejects:
  assumes "\<not> production e" and "prop_config d \<noteq> Field"
  shows "(n, d) \<in> set props \<Longrightarrow> distinct (map fst props) \<Longrightarrow>
     prototype s Ctor n = None \<or>
       (\<exists>x. prototype s Ctor n = Some x \<and> isFunction (desc_set x) \<and> \<not> isFunction (desc_get x)) \<Longrightarrow>
     \<exists>err s'. publicPropsLoop e Ctor props acc s = (Inl err, s')"
proof (induction props arbitrary: acc s)
  case Nil
  then show ?case by simp
next
  case (Cons p props)
  obtain m dm where p: "p = (m, dm)" by (cases p)
  show ?case
  proof (cases "publicPropStep e Ctor m dm s")
    case (Inl err)
    with p show ?thesis by simp
  next
    case (Inr s1)
    have "p \<noteq> (n, d)"
    proof
      assume "p = (n, d)"
      with p Inr publicPropStep_rejects [OF assms Cons.prems(3)] show False by simp
    qed
    with Cons.prems(1) have mem: "(n, d) \<in> set props" by simp
    from Cons.prems(2) have dist: "distinct (map fst props)" by simp
    from mem Cons.prems(2) p have "m \<noteq> n" by force
    with publicPropStep_prototype [OF Inr] have "prototype s1 Ctor n = prototype s Ctor n"
      by auto
    with Cons.prems(3) have "prototype s1 Ctor n = None \<or>
       (\<exists>x. prototype s1 Ctor n = Some x \<and> isFunction (desc_set x) \<and> \<not> isFunction (desc_get x))"
      by simp
    from Cons.IH [OF mem dist this, of "acc @ [m]"] p Inr show ?thesis by simp
  qed
qed

lemma registerDecorators_publicProps_rejects:
  assumes "\<not> production e" and "publicProps meta = Some props" and "(n, d) \<in> set props"
    and "distinct (map fst props)" and "prop_config d \<noteq> Field"
    and "prototype s Ctor n = None \<or>
       (\<exists>x. prototype s Ctor n = Some x \<and> isFunction (desc_set x) \<and> \<not> isFunction (desc_get x))"
  shows "\<exists>err s'. registerDecorators e Ctor meta s = (Inl err, s')"
proof -
  from publicPropsLoop_rejects [OF assms(1) assms(5) assms(3) assms(4) assms(6), of "[]"]
  obtain err s' where "publicPropsLoop e Ctor props [] s = (Inl err, s')" by blast
  with assms(2) have "registerDecorators e Ctor meta s = (Inl err, s')"
    by (simp add: registerDecorators_def)
  then show ?thesis by blast
qed

subsection \<open>Methods that validation rejects\<close>

lemma accessor_notAWritableMethod: "notAWritableMethod (Some (AccessorDescriptor g st en co))"
  by (simp add: notAWritableMethod_def)

lemma publicPropStep_keeps_rejected:
  assumes "publicPropStep e Ctor m d s = Inr s'" and "notAWritableMethod (prototype s Ctor n)"
  shows "notAWritableMethod (prototype s' Ctor n)"
proof (cases "n = m")
  case True
  with publicPropStep_prototype [OF assms(1)] show ?thesis
    by (auto simp: accessor_notAWritableMethod)
next
  case False
  with publicPropStep_prototype [OF assms(1)] assms(2) show ?thesis by simp
qed

lemma publicPropsLoop_keeps_rejected:
  "publicPropsLoop e Ctor props acc s = (r, s') \<Longrightarrow> notAWritableMethod (prototype s Ctor n) \<Longrightarrow>
     notAWritableMethod (prototype s' Ctor n)"
proof (induction props arbitrary: acc s)
  case Nil
  then show ?case by simp
next
  case (Cons p props)
  obtain m d where p: "p = (m, d)" by (cases p)
  show ?case
  proof (cases "publicPropStep e Ctor m d s")
    case (Inl err)
    with Cons.prems p show ?thesis by simp
  next
    case (Inr s1)
    with Cons.prems p have rest: "publicPropsLoop e Ctor props (acc @ [m]) s1 = (r, s')" by simp
    from Cons.IH [OF rest publicPropStep_keeps_rejected [OF Inr Cons.prems(2)]]
    show ?thesis .
  qed
qed

lemma validateMethodDecoratedWithApi_rejects:
  "\<not> production e \<Longrightarrow> notAWritableMethod (prototype s Ctor n) \<Longrightarrow>
     validateMethodDecoratedWithApi e s Ctor n =
       Inl (AssertFail (''Compiler Error: Invalid @api '' @ n @ '' method declaration.''))"
  by (auto simp: validate_defs notAWritableMethod_def split: option.splits)

lemma validateMethodDecoratedWithWire_rejects:
  "\<not> production e \<Longrightarrow> notAWritableMethod (prototype s Ctor n) \<Longrightarrow>
     validateMethodDecoratedWithWire e s Ctor n =
       Inl (AssertFail (''Compiler Error: Invalid @wire(...) '' @ n @ '' method declaration.''))"
  by (auto simp: validate_defs notAWritableMethod_def split: option.splits)

lemma publicMethodsLoop_rejects:
  assumes "\<not> production e" and "notAWritableMethod (prototype s Ctor n)"
  shows "n \<in> set ms \<Longrightarrow> \<exists>err. publicMethodsLoop e Ctor ms acc s = Inl err"
proof (induction ms arbitrary: acc)
  case Nil
  then show ?case by simp
next
  case (Cons m ms)
  show ?case
  proof (cases "validateMethodDecoratedWithApi e s Ctor m")
    case (Inl err)
    with assms(1) show ?thesis by simp
  next
    case (Inr u)
    with validateMethodDecoratedWithApi_rejects [OF assms] have "m \<noteq> n" by auto
    with Cons.prems have "n \<in> set ms" by simp
    from Cons.IH [OF this, of "acc @ [m]"] Inr assms(1) show ?thesis by simp
  qed
qed

lemma wireStep_prototype:
  "wireStep e Ctor m d acc s = (Inr acc', s') \<Longrightarrow>
     prototype s' Ctor n =
       (if wire_method d \<noteq> JNum 1 \<and> n = m
        then Some (accessorOf (internalWireFieldDecorator e m))
        else prototype s Ctor n)"
  by (auto simp: wireStep_def storeWiredMethodMeta_def storeWiredFieldMeta_def Let_def
        dest!: defineProperty_Inr split: if_splits sum.splits)

lemma wireLoop_rejects:
  assumes "\<not> production e" and "wire_method d = JNum 1"
  shows "(n, d) \<in> set ws \<Longrightarrow> notAWritableMethod (prototype s Ctor n) \<Longrightarrow>
     \<exists>err s'. wireLoop e Ctor ws acc s = (Inl err, s')"
proof (induction ws arbitrary: acc s)
  case Nil
  then show ?case by simp
next
  case (Cons p ws)
  obtain m dm where p: "p = (m, dm)" by (cases p)
  obtain r1 s1 where step: "wireStep e Ctor m dm acc s = (r1, s1)" by (metis surj_pair)
  show ?case
  proof (cases r1)
    case (Inl err)
    with p step show ?thesis by simp
  next
    case (Inr acc1)
    have "p \<noteq> (n, d)"
    proof
      assume "p = (n, d)"
      with p step Inr assms validateMethodDecoratedWithWire_rejects [OF assms(1) Cons.prems(2)]
      show False by (simp add: wireStep_def Let_def)
    qed
    with Cons.prems(1) have mem: "(n, d) \<in> set ws" by simp
    from wireStep_prototype [OF step [unfolded Inr], of n] Cons.prems(2)
    have "notAWritableMethod (prototype s1 Ctor n)"
      by (auto simp: accessorOf_def accessor_notAWritableMethod split: if_splits)
    from Cons.IH [OF mem this, of acc1] p step Inr show ?thesis by simp
  qed
qed

subsection \<open>What the loop over the wire entries does\<close>





subsection \<open>The method flag of a wire entry\<close>

lemma wireStep_flag:
  "wire_method d \<noteq> JNum 1 \<Longrightarrow>
     wireStep e Ctor n (d\<lparr>wire_method := JUndefined\<rparr>) acc s = wireStep e Ctor n d acc s"
  by (simp add: wireStep_def Let_def)

lemma wireLoop_flag:
  "wire_method d \<noteq> JNum 1 \<Longrightarrow>
     wireLoop e Ctor (before @ (n, d\<lparr>wire_method := JUndefined\<rparr>) # after) acc s =
     wireLoop e Ctor (before @ (n, d) # after) acc s"
proof (induction before arbitrary: acc s)
  case Nil
  then show ?case by (simp add: wireStep_flag)
next
  case (Cons p before)
  obtain m dm where p: "p = (m, dm)" by (cases p)
  from Cons.IH [OF Cons.prems] p show ?case
    by (simp split: prod.splits sum.splits)
qed

subsection \<open>The order of enumeration\<close>

lemma count_list_map_insort_key:
  "count_list (map f (insort_key k x ys)) n = count_list (map f (x # ys)) n"
  by (induction ys) auto

lemma count_list_map_sort_key:
  "count_list (map f (sort_key k ys)) n = count_list (map f ys) n"
  by (induction ys) (simp_all add: count_list_map_insort_key)

lemma count_list_map_filter_split:
  "count_list (map f (filter P xs)) n + count_list (map f (filter (\<lambda>x. \<not> P x) xs)) n =
     count_list (map f xs) n"
  by (induction xs) auto

lemma count_list_forInOrder:
  "count_list (map fst (forInOrder declared)) n = count_list (map fst declared) n"
proof -
  have "count_list (map fst (forInOrder declared)) n =
      count_list (map fst (filter (\<lambda>entry. arrayIndex (fst entry) \<noteq> None) declared)) n +
      count_list (map fst (filter (\<lambda>entry. \<not> arrayIndex (fst entry) \<noteq> None) declared)) n"
    by (simp add: forInOrder_def count_list_map_sort_key)
  then show ?thesis by (simp only: count_list_map_filter_split)
qed

lemma forInOrder_no_index:
  assumes "\<forall>entry \<in> set declared. arrayIndex (fst entry) = None"
  shows "forInOrder declared = declared"
proof -
  from assms have "filter (\<lambda>entry. arrayIndex (fst entry) \<noteq> None) declared = []"
    by (simp add: filter_empty_conv)
  moreover from assms have "filter (\<lambda>entry. arrayIndex (fst entry) = None) declared = declared"
    by (simp add: filter_id_conv)
  ultimately show ?thesis by (simp add: forInOrder_def)
qed

section \<open>The claims\<close>

text \<open>
  C1. In a development build, a class is registered with a public property of kind Get or
  GetSet for which the prototype has no own descriptor: the registration throws, and the
  registry is as it was before the call, that is, the map \<^verbatim>\<open>signedDecoratorToMetaMap\<close>
  and the allocated metadata objects are unchanged and \<^verbatim>\<open>getDecoratorsMeta\<close> gives what
  it gave before. For a class without an entry no entry is recorded, and
  \<^verbatim>\<open>getDecoratorsMeta\<close> still gives the shared default object.
\<close>

theorem missing_accessor_fails_before_registry_write:
  assumes "\<not> production e"
    and "publicProps meta = Some props"
    and "(n, d) \<in> set props"
    and "distinct (map fst props)"
    and "prop_config d = Get \<or> prop_config d = GetSet"
    and "prototype s Ctor n = None"
  shows "\<exists>err s'. registerDecorators e Ctor meta s = (Inl err, s') \<and>
           signedDecoratorToMetaMap s' = signedDecoratorToMetaMap s \<and>
           metaObjects s' = metaObjects s \<and>
           getDecoratorsMeta s' Ctor = getDecoratorsMeta s Ctor \<and>
           (signedDecoratorToMetaMap s Ctor = None \<longrightarrow>
              signedDecoratorToMetaMap s' Ctor = None \<and>
              getDecoratorsMeta s' Ctor = defaultMetaRef)"
proof -
  from assms(5) have k: "prop_config d \<noteq> Field" by auto
  from assms(6) have "prototype s Ctor n = None \<or>
       (\<exists>x. prototype s Ctor n = Some x \<and> isFunction (desc_set x) \<and> \<not> isFunction (desc_get x))"
    by simp
  from registerDecorators_publicProps_rejects [OF assms(1-4) k this]
  obtain err s' where r: "registerDecorators e Ctor meta s = (Inl err, s')" by blast
  from registerDecorators_failed_keeps [OF r]
  have k: "signedDecoratorToMetaMap s' = signedDecoratorToMetaMap s \<and>
        metaObjects s' = metaObjects s \<and>
        getDecoratorsMeta s' Ctor = getDecoratorsMeta s Ctor \<and>
        (signedDecoratorToMetaMap s Ctor = None \<longrightarrow>
           signedDecoratorToMetaMap s' Ctor = None \<and>
           getDecoratorsMeta s' Ctor = defaultMetaRef)"
    by (simp add: getDecoratorsMeta_def)
  from r k have "registerDecorators e Ctor meta s = (Inl err, s') \<and>
        signedDecoratorToMetaMap s' = signedDecoratorToMetaMap s \<and>
        metaObjects s' = metaObjects s \<and>
        getDecoratorsMeta s' Ctor = getDecoratorsMeta s Ctor \<and>
        (signedDecoratorToMetaMap s Ctor = None \<longrightarrow>
           signedDecoratorToMetaMap s' Ctor = None \<and>
           getDecoratorsMeta s' Ctor = defaultMetaRef)"
    by (rule conjI)
  then show ?thesis by (intro exI)
qed

text \<open>
  Class \<open>0\<close> with the public field \<^verbatim>\<open>x\<close> followed by a getter \<^verbatim>\<open>missing\<close> that the
  prototype does not have: the registration throws after \<^verbatim>\<open>x\<close> was installed, and the
  registry is still empty.
\<close>

theorem missing_accessor_fails_before_registry_write_witness:
  "registerDecorators devEnv 0 metaC (initialState sampleProtos sampleExt) =
     (Inl (AssertFail ''Compiler Error: Invalid @api get missing accessor declaration.''),
      snd (registerDecorators devEnv 0 metaC (initialState sampleProtos sampleExt))) \<and>
   signedDecoratorToMetaMap (snd (registerDecorators devEnv 0 metaC (initialState sampleProtos sampleExt))) 0
     = None \<and>
   metaObjects (snd (registerDecorators devEnv 0 metaC (initialState sampleProtos sampleExt))) = [] \<and>
   getDecoratorsMeta (snd (registerDecorators devEnv 0 metaC (initialState sampleProtos sampleExt))) 0
     = defaultMetaRef \<and>
   prototype (snd (registerDecorators devEnv 0 metaC (initialState sampleProtos sampleExt))) 0 ''x''
     = Some (AccessorDescriptor (JFun 100) (JFun 101) True True)"
proof -
  have h1: "\<not> production devEnv" by (simp add: devEnv_def)
  have h2: "publicProps metaC =
      Some [(''x'', \<lparr>prop_config = Field, prop_type = ''any''\<rparr>),
            (''missing'', \<lparr>prop_config = Get, prop_type = ''any''\<rparr>)]"
    by (simp add: metaC_def)
  have h3: "(''missing'', \<lparr>prop_config = Get, prop_type = ''any''\<rparr>) \<in>
      set [(''x'', \<lparr>prop_config = Field, prop_type = ''any''\<rparr>),
           (''missing'', \<lparr>prop_config = Get, prop_type = ''any''\<rparr>)]"
    by simp
  have h4: "distinct (map fst [(''x'', \<lparr>prop_config = Field, prop_type = ''any''\<rparr>),
           (''missing'', \<lparr>prop_config = Get, prop_type = ''any''\<rparr>)])"
    by simp
  have h5: "prop_config \<lparr>prop_config = Get, prop_type = ''any''\<rparr> = Get \<or>
            prop_config \<lparr>prop_config = Get, prop_type = ''any''\<rparr> = GetSet"
    by simp
  have h6: "prototype (initialState sampleProtos sampleExt) 0 ''missing'' = None"
    by (simp add: sample_defs)
  have h7: "signedDecoratorToMetaMap (initialState sampleProtos sampleExt) 0 = None"
    by (simp add: sample_defs)
  have e: "fst (registerDecorators devEnv 0 metaC (initialState sampleProtos sampleExt)) =
      Inl (AssertFail ''Compiler Error: Invalid @api get missing accessor declaration.'')"
    by (simp add: run_defs sample_defs metaC_def)
  have x: "prototype (snd (registerDecorators devEnv 0 metaC (initialState sampleProtos sampleExt))) 0 ''x''
     = Some (AccessorDescriptor (JFun 100) (JFun 101) True True)"
    by (simp add: run_defs sample_defs metaC_def)
  have m: "metaObjects (initialState sampleProtos sampleExt) = []" by (simp add: sample_defs)
  from missing_accessor_fails_before_registry_write [OF h1 h2 h3 h4 h5 h6] h7 e x m
  show ?thesis by (auto simp: prod_eq_iff)
qed



text \<open>
  C3, as amended. When a registration with a \<^verbatim>\<open>publicProps\<close> mapping returns, the
  \<^verbatim>\<open>apiFields\<close> of the metadata that \<^verbatim>\<open>getDecoratorsMeta\<close> then gives for the class
  contains each declared name exactly once, in the order in which \<^verbatim>\<open>for ... in\<close> visits
  the mapping: the names that are array indices first, in ascending numeric order, then
  the other names in the order declared. When no declared name is an array index this is
  the order declared.
\<close>

theorem apiFields_in_for_in_order:
  assumes "registerDecorators e Ctor meta s = (Inr c, s')"
    and "publicProps meta = Some (forInOrder declared)"
    and "distinct (map fst declared)"
  shows "\<exists>m. metaAt s' (getDecoratorsMeta s' Ctor) = Some m \<and>
             apiFields m =
               map fst (sort_key indexKey
                          (filter (\<lambda>entry. arrayIndex (fst entry) \<noteq> None) declared)) @
               map fst (filter (\<lambda>entry. arrayIndex (fst entry) = None) declared) \<and>
             (\<forall>n \<in> fst ` set declared. count_list (apiFields m) n = 1) \<and>
             ((\<forall>entry \<in> set declared. arrayIndex (fst entry) = None) \<longrightarrow>
                apiFields m = map fst declared)"
proof -
  have m: "metaAt s' (getDecoratorsMeta s' Ctor) = Some (resolvedMeta meta)"
    using registered_meta [OF assms(1)] by (rule conjunct2)
  have a: "apiFields (resolvedMeta meta) = map fst (forInOrder declared)"
    using assms(2) by (simp add: resolvedMeta_def)
  have b: "map fst (forInOrder declared) =
               map fst (sort_key indexKey
                          (filter (\<lambda>entry. arrayIndex (fst entry) \<noteq> None) declared)) @
               map fst (filter (\<lambda>entry. arrayIndex (fst entry) = None) declared)"
    by (simp add: forInOrder_def)
  have c: "\<forall>n \<in> fst ` set declared. count_list (map fst (forInOrder declared)) n = 1"
    using assms(3) by (simp add: count_list_forInOrder count_list_distinct)
  have d: "(\<forall>entry \<in> set declared. arrayIndex (fst entry) = None) \<longrightarrow>
                map fst (forInOrder declared) = map fst declared"
    by (simp add: forInOrder_no_index)
  from m a b c d show ?thesis by auto
qed

text \<open>
  Class \<open>0\<close> with the public field \<^verbatim>\<open>x\<close> and the public accessor \<^verbatim>\<open>acc\<close>, neither an
  array index, in a development build: the registration returns and \<^verbatim>\<open>apiFields\<close> is
  \<^verbatim>\<open>["x", "acc"]\<close>.
\<close>

theorem apiFields_in_for_in_order_witness:
  "fst (registerDecorators devEnv 0 metaA (initialState sampleProtos sampleExt)) = Inr 0 \<and>
   arrayIndex ''x'' = None \<and> arrayIndex ''acc'' = None \<and>
   (\<exists>m. metaAt (snd (registerDecorators devEnv 0 metaA (initialState sampleProtos sampleExt)))
           (getDecoratorsMeta
              (snd (registerDecorators devEnv 0 metaA (initialState sampleProtos sampleExt))) 0)
         = Some m \<and>
        apiFields m = [''x'', ''acc''] \<and> count_list (apiFields m) ''x'' = 1 \<and>
        count_list (apiFields m) ''acc'' = 1)"
proof -
  let ?declared = "[(''x'', \<lparr>prop_config = Field, prop_type = ''any''\<rparr>),
                    (''acc'', \<lparr>prop_config = GetSet, prop_type = ''any''\<rparr>)]"
  have run: "fst (registerDecorators devEnv 0 metaA (initialState sampleProtos sampleExt)) = Inr 0"
    by (simp add: run_defs sample_defs)
  then have h1: "registerDecorators devEnv 0 metaA (initialState sampleProtos sampleExt) =
      (Inr 0, snd (registerDecorators devEnv 0 metaA (initialState sampleProtos sampleExt)))"
    by (simp add: prod_eq_iff)
  have x: "arrayIndex ''x'' = None" and acc: "arrayIndex ''acc'' = None"
    by (simp_all add: arrayIndex_def digitValue_def)
  then have f: "forInOrder ?declared = ?declared"
    by (simp add: forInOrder_def)
  have h2: "publicProps metaA = Some (forInOrder ?declared)"
    unfolding f by (simp add: metaA_def)
  have h3: "distinct (map fst ?declared)"
    by simp
  from apiFields_in_for_in_order [OF h1 h2 h3] run x acc show ?thesis by auto
qed

text \<open>
  The order declared is not kept where a declared name is an array index. Class \<open>1\<close> declares
  the public fields \<^verbatim>\<open>b\<close>, \<^verbatim>\<open>2\<close>, \<^verbatim>\<open>a\<close>, \<^verbatim>\<open>1\<close> in this order; the loop visits
  \<^verbatim>\<open>1\<close>, \<^verbatim>\<open>2\<close>, \<^verbatim>\<open>b\<close>, \<^verbatim>\<open>a\<close>, and that is the \<^verbatim>\<open>apiFields\<close> stored.
\<close>

theorem apiFields_not_in_declaration_order:
  "map fst declaredProps = [''b'', ''2'', ''a'', ''1''] \<and>
   publicProps metaF = Some (forInOrder declaredProps) \<and>
   fst (registerDecorators devEnv 1 metaF (initialState sampleProtos sampleExt)) = Inr 1 \<and>
   apiFields (the (metaAt
      (snd (registerDecorators devEnv 1 metaF (initialState sampleProtos sampleExt)))
      (getDecoratorsMeta
         (snd (registerDecorators devEnv 1 metaF (initialState sampleProtos sampleExt))) 1)))
     = [''1'', ''2'', ''b'', ''a''] \<and>
   apiFields (the (metaAt
      (snd (registerDecorators devEnv 1 metaF (initialState sampleProtos sampleExt)))
      (getDecoratorsMeta
         (snd (registerDecorators devEnv 1 metaF (initialState sampleProtos sampleExt))) 1)))
     \<noteq> map fst declaredProps"
proof -
  have f: "forInOrder declaredProps =
     [(''1'', \<lparr>prop_config = Field, prop_type = ''any''\<rparr>),
      (''2'', \<lparr>prop_config = Field, prop_type = ''any''\<rparr>),
      (''b'', \<lparr>prop_config = Field, prop_type = ''any''\<rparr>),
      (''a'', \<lparr>prop_config = Field, prop_type = ''any''\<rparr>)]"
    by (simp add: forInOrder_def declaredProps_def arrayIndex_def indexKey_def digitValue_def)
  have p: "publicProps metaF = Some (forInOrder declaredProps)"
    by (simp add: metaF_def)
  have d: "map fst declaredProps = [''b'', ''2'', ''a'', ''1'']"
    by (simp add: declaredProps_def)
  have r: "fst (registerDecorators devEnv 1 metaF (initialState sampleProtos sampleExt)) = Inr 1"
    by (simp add: metaF_def f run_defs sample_defs)
  have a: "apiFields (the (metaAt
      (snd (registerDecorators devEnv 1 metaF (initialState sampleProtos sampleExt)))
      (getDecoratorsMeta
         (snd (registerDecorators devEnv 1 metaF (initialState sampleProtos sampleExt))) 1)))
     = [''1'', ''2'', ''b'', ''a'']"
    by (simp add: metaF_def f run_defs sample_defs)
  from d p r a show ?thesis by simp
qed

text \<open>
  C4. A class that was never passed to \<^verbatim>\<open>registerDecorators\<close>: whatever other classes
  have been registered since the module was loaded, successfully or not,
  \<^verbatim>\<open>getDecoratorsMeta\<close> returns the shared default object, whose four lists are empty
  and which has no \<^verbatim>\<open>fields\<close> entry.
\<close>

theorem unregistered_class_gets_defaultMeta:
  assumes "\<forall>(c, m) \<in> set calls. c \<noteq> Ctor"
  shows "getDecoratorsMeta (registerAll e calls (initialState protos ext)) Ctor = defaultMetaRef \<and>
         metaAt (registerAll e calls (initialState protos ext)) defaultMetaRef =
           Some \<lparr>apiMethods = [], apiFields = [], wiredMethods = [], wiredFields = [],
                 meta_fields = NoFieldsEntry\<rparr>"
proof -
  have "signedDecoratorToMetaMap (registerAll e calls (initialState protos ext)) Ctor = None"
    using registerAll_other_entry [OF assms, of e "initialState protos ext"]
    by (simp add: initialState_def)
  then show ?thesis
    by (simp add: getDecoratorsMeta_def defaultMetaRef_def defaultMeta_def)
qed

text \<open>
  Class \<open>1\<close> after class \<open>0\<close> and class \<open>2\<close> have been registered: the default object;
  class \<open>0\<close> has an object of its own.
\<close>

theorem unregistered_class_gets_defaultMeta_witness:
  "getDecoratorsMeta (registerAll devEnv [(0, metaA), (2, noMeta)] (initialState sampleProtos sampleExt)) 1
     = defaultMetaRef \<and>
   metaAt (registerAll devEnv [(0, metaA), (2, noMeta)] (initialState sampleProtos sampleExt)) defaultMetaRef =
     Some \<lparr>apiMethods = [], apiFields = [], wiredMethods = [], wiredFields = [],
           meta_fields = NoFieldsEntry\<rparr> \<and>
   getDecoratorsMeta (registerAll devEnv [(0, metaA), (2, noMeta)] (initialState sampleProtos sampleExt)) 0
     \<noteq> defaultMetaRef"
proof -
  have h: "\<forall>(c, m) \<in> set [(0::nat, metaA), (2, noMeta)]. c \<noteq> 1" by simp
  have r: "getDecoratorsMeta (registerAll devEnv [(0, metaA), (2, noMeta)] (initialState sampleProtos sampleExt)) 0
     \<noteq> defaultMetaRef"
    by (simp add: run_defs sample_defs)
  from unregistered_class_gets_defaultMeta [OF h, of devEnv sampleProtos sampleExt] r show ?thesis by simp
qed

text \<open>
  C5. In a development build, a public property of an accessor kind (Set, Get or GetSet)
  must have an own descriptor on the prototype, and a descriptor whose \<^verbatim>\<open>set\<close> is a
  function while its \<^verbatim>\<open>get\<close> is not is rejected: in both cases the registration throws.
  When the property is the first one declared, what is thrown is the diagnostic of
  \<^verbatim>\<open>validateAccessorDecoratedWithApi\<close>: the missing-accessor message, or the assertion
  that a setter needs its getter.
\<close>

theorem accessor_needs_descriptor_and_getter:
  assumes "\<not> production e"
    and "publicProps meta = Some props"
    and "(n, d) \<in> set props"
    and "distinct (map fst props)"
    and "prop_config d \<noteq> Field"
    and "prototype s Ctor n = None \<or>
         (\<exists>x. prototype s Ctor n = Some x \<and> isFunction (desc_set x) \<and> \<not> isFunction (desc_get x))"
  shows "(\<exists>err s'. registerDecorators e Ctor meta s = (Inl err, s')) \<and>
         (\<forall>rest. props = (n, d) # rest \<longrightarrow>
            registerDecorators e Ctor meta s =
              (Inl (case prototype s Ctor n of
                      None \<Rightarrow> AssertFail
                        (''Compiler Error: Invalid @api get '' @ n @ '' accessor declaration.'')
                    | Some x \<Rightarrow> AssertIsTrue
                        (''Compiler Error: Missing getter for property '' @ n @
                         '' decorated with @api in '' @ ctorToString e Ctor @
                         ''. You cannot have a setter without the corresponding getter.'')),
               s))"
proof
  show "\<exists>err s'. registerDecorators e Ctor meta s = (Inl err, s')"
    by (rule registerDecorators_publicProps_rejects [OF assms])
next
  show "\<forall>rest. props = (n, d) # rest \<longrightarrow>
            registerDecorators e Ctor meta s =
              (Inl (case prototype s Ctor n of
                      None \<Rightarrow> AssertFail
                        (''Compiler Error: Invalid @api get '' @ n @ '' accessor declaration.'')
                    | Some x \<Rightarrow> AssertIsTrue
                        (''Compiler Error: Missing getter for property '' @ n @
                         '' decorated with @api in '' @ ctorToString e Ctor @
                         ''. You cannot have a setter without the corresponding getter.'')),
               s)"
    using assms(2) publicPropStep_rejects [OF assms(1) assms(5) assms(6)]
    by (simp add: registerDecorators_def)
qed

text \<open>
  Class \<open>0\<close> declares \<^verbatim>\<open>setonly\<close>, whose descriptor has a setter and no getter, as a
  public property of kind Set.
\<close>

theorem accessor_needs_descriptor_and_getter_witness:
  "\<not> production devEnv \<and>
   prototype (initialState sampleProtos sampleExt) 0 ''setonly'' = Some (AccessorDescriptor JUndefined (JFun 5) False True) \<and>
   registerDecorators devEnv 0 metaD (initialState sampleProtos sampleExt) =
     (Inl (AssertIsTrue
        ''Compiler Error: Missing getter for property setonly decorated with @api in class C {}. You cannot have a setter without the corresponding getter.''),
      initialState sampleProtos sampleExt)"
proof -
  have h1: "\<not> production devEnv" by (simp add: devEnv_def)
  have h2: "publicProps metaD = Some [(''setonly'', \<lparr>prop_config = Set, prop_type = ''any''\<rparr>)]"
    by (simp add: metaD_def)
  have h3: "(''setonly'', \<lparr>prop_config = Set, prop_type = ''any''\<rparr>) \<in>
      set [(''setonly'', \<lparr>prop_config = Set, prop_type = ''any''\<rparr>)]"
    by simp
  have h4: "distinct (map fst [(''setonly'', \<lparr>prop_config = Set, prop_type = ''any''\<rparr>)])"
    by simp
  have h5: "prop_config \<lparr>prop_config = Set, prop_type = ''any''\<rparr> \<noteq> Field" by simp
  have p: "prototype (initialState sampleProtos sampleExt) 0 ''setonly'' =
      Some (AccessorDescriptor JUndefined (JFun 5) False True)"
    by (simp add: sample_defs)
  then have h6: "prototype (initialState sampleProtos sampleExt) 0 ''setonly'' = None \<or>
         (\<exists>x. prototype (initialState sampleProtos sampleExt) 0 ''setonly'' = Some x \<and>
              isFunction (desc_set x) \<and> \<not> isFunction (desc_get x))"
    by simp
  have c: "ctorToString devEnv 0 = ''class C {}''" by (simp add: devEnv_def)
  from accessor_needs_descriptor_and_getter [OF h1 h2 h3 h4 h5 h6] h1 p c
  show ?thesis by simp
qed

text \<open>
  C6. In a development build, registration throws when a name listed in
  \<^verbatim>\<open>publicMethods\<close>, or a wire entry whose method flag is 1, has on the prototype no own
  descriptor, one whose value is not a function, or one whose \<^verbatim>\<open>writable\<close> is
  \<^verbatim>\<open>false\<close>. When the public method is the first thing validated (no \<^verbatim>\<open>publicProps\<close>, the
  name first in \<^verbatim>\<open>publicMethods\<close>), what is thrown is the diagnostic
  "Invalid @api \<open>name\<close> method declaration", which names the method; likewise for the first
  wire entry, with the diagnostic of the wired method.
\<close>

theorem invalid_method_fails_registration:
  assumes "\<not> production e"
    and "notAWritableMethod (prototype s Ctor n)"
    and "(\<exists>methods. publicMethods meta = Some methods \<and> n \<in> set methods) \<or>
         (\<exists>wires d. wire meta = Some wires \<and> (n, d) \<in> set wires \<and> wire_method d = JNum 1)"
  shows "(\<exists>err s'. registerDecorators e Ctor meta s = (Inl err, s')) \<and>
         (publicProps meta = None \<longrightarrow> (\<exists>rest. publicMethods meta = Some (n # rest)) \<longrightarrow>
            registerDecorators e Ctor meta s =
              (Inl (AssertFail (''Compiler Error: Invalid @api '' @ n @ '' method declaration.'')),
               s)) \<and>
         (publicProps meta = None \<longrightarrow> publicMethods meta = None \<longrightarrow>
            (\<exists>d rest. wire meta = Some ((n, d) # rest) \<and> wire_method d = JNum 1) \<longrightarrow>
            registerDecorators e Ctor meta s =
              (Inl (AssertFail
                 (''Compiler Error: Invalid @wire(...) '' @ n @ '' method declaration.'')),
               s))"
proof (intro conjI)
  obtain r1 s1 where p1: "(case publicProps meta of None \<Rightarrow> (Inr [], s)
      | Some props \<Rightarrow> publicPropsLoop e Ctor props [] s) = (r1, s1)" by (metis surj_pair)
  have bad1: "notAWritableMethod (prototype s1 Ctor n)"
    using p1 assms(2) publicPropsLoop_keeps_rejected by (auto split: option.splits)
  show "\<exists>err s'. registerDecorators e Ctor meta s = (Inl err, s')"
  proof (cases r1)
    case (Inl err)
    with p1 show ?thesis by (simp add: registerDecorators_def)
  next
    case (Inr af)
    from assms(3) show ?thesis
    proof
      assume "\<exists>methods. publicMethods meta = Some methods \<and> n \<in> set methods"
      then obtain methods where m: "publicMethods meta = Some methods" "n \<in> set methods"
        by blast
      from publicMethodsLoop_rejects [OF assms(1) bad1 m(2), of "[]"]
      obtain err where "publicMethodsLoop e Ctor methods [] s1 = Inl err" by blast
      with p1 Inr m(1) show ?thesis by (simp add: registerDecorators_def)
    next
      assume "\<exists>wires d. wire meta = Some wires \<and> (n, d) \<in> set wires \<and> wire_method d = JNum 1"
      then obtain wires d where w: "wire meta = Some wires" "(n, d) \<in> set wires"
        "wire_method d = JNum 1" by blast
      from wireLoop_rejects [OF assms(1) w(3) w(2) bad1, of "([], [])"]
      obtain err s2 where l: "wireLoop e Ctor wires ([], []) s1 = (Inl err, s2)" by blast
      show ?thesis
      proof (cases "case publicMethods meta of None \<Rightarrow> Inr []
            | Some methods \<Rightarrow> publicMethodsLoop e Ctor methods [] s1")
        case (Inl err')
        with p1 Inr show ?thesis by (simp add: registerDecorators_def)
      next
        case (Inr am)
        with p1 \<open>r1 = Inr af\<close> w(1) l show ?thesis by (simp add: registerDecorators_def)
      qed
    qed
  qed
next
  show "publicProps meta = None \<longrightarrow> (\<exists>rest. publicMethods meta = Some (n # rest)) \<longrightarrow>
            registerDecorators e Ctor meta s =
              (Inl (AssertFail (''Compiler Error: Invalid @api '' @ n @ '' method declaration.'')),
               s)"
    using assms(1) validateMethodDecoratedWithApi_rejects [OF assms(1) assms(2)]
    by (auto simp: registerDecorators_def)
next
  show "publicProps meta = None \<longrightarrow> publicMethods meta = None \<longrightarrow>
            (\<exists>d rest. wire meta = Some ((n, d) # rest) \<and> wire_method d = JNum 1) \<longrightarrow>
            registerDecorators e Ctor meta s =
              (Inl (AssertFail
                 (''Compiler Error: Invalid @wire(...) '' @ n @ '' method declaration.'')),
               s)"
    using assms(1) validateMethodDecoratedWithWire_rejects [OF assms(1) assms(2)]
    by (auto simp: registerDecorators_def wireStep_def Let_def)
qed

text \<open>
  Class \<open>3\<close>, whose \<^verbatim>\<open>foo\<close> has \<^verbatim>\<open>writable: false\<close>, registered with
  \<^verbatim>\<open>publicMethods = ["foo"]\<close>.
\<close>

theorem invalid_method_fails_registration_witness:
  "\<not> production devEnv \<and>
   prototype (initialState sampleProtos sampleExt) 3 ''foo'' = Some (DataDescriptor (JFun 6) False False False) \<and>
   notAWritableMethod (prototype (initialState sampleProtos sampleExt) 3 ''foo'') \<and>
   publicMethods metaE = Some [''foo''] \<and>
   registerDecorators devEnv 3 metaE (initialState sampleProtos sampleExt) =
     (Inl (AssertFail ''Compiler Error: Invalid @api foo method declaration.''),
      initialState sampleProtos sampleExt)"
proof -
  have h1: "\<not> production devEnv" by (simp add: devEnv_def)
  have p: "prototype (initialState sampleProtos sampleExt) 3 ''foo'' = Some (DataDescriptor (JFun 6) False False False)"
    by (simp add: sample_defs)
  then have h2: "notAWritableMethod (prototype (initialState sampleProtos sampleExt) 3 ''foo'')"
    by (simp add: notAWritableMethod_def)
  have m: "publicMethods metaE = Some [''foo'']" by (simp add: metaE_def)
  then have h3: "(\<exists>methods. publicMethods metaE = Some methods \<and> ''foo'' \<in> set methods) \<or>
         (\<exists>wires d. wire metaE = Some wires \<and> (''foo'', d) \<in> set wires \<and> wire_method d = JNum 1)"
    by simp
  have pp: "publicProps metaE = None" by (simp add: metaE_def)
  from invalid_method_fails_registration [OF h1 h2 h3] h1 p h2 m pp show ?thesis by simp
qed

text \<open>
  C7. A name that is tracked and declared in no other category: when the registration
  returns, the name is in none of \<^verbatim>\<open>apiFields\<close>, \<^verbatim>\<open>apiMethods\<close>, \<^verbatim>\<open>wiredFields\<close>
  and \<^verbatim>\<open>wiredMethods\<close> of the stored metadata, while the prototype carries the track
  descriptor under the name.
\<close>

theorem tracked_name_in_no_list:
  assumes "registerDecorators e Ctor meta s = (Inr c, s')"
    and "track meta = Some tracked"
    and "z \<in> fst ` set tracked"
    and "z \<notin> (case publicProps meta of None \<Rightarrow> {} | Some props \<Rightarrow> fst ` set props)"
    and "z \<notin> (case publicMethods meta of None \<Rightarrow> {} | Some methods \<Rightarrow> set methods)"
    and "z \<notin> (case wire meta of None \<Rightarrow> {} | Some wires \<Rightarrow> fst ` set wires)"
  shows "\<exists>m. metaAt s' (getDecoratorsMeta s' Ctor) = Some m \<and>
             z \<notin> set (apiFields m) \<and> z \<notin> set (apiMethods m) \<and>
             z \<notin> set (wiredFields m) \<and> z \<notin> set (wiredMethods m) \<and>
             prototype s' Ctor z = Some (accessorOf (internalTrackDecorator e z))"
proof -
  have m: "metaAt s' (getDecoratorsMeta s' Ctor) = Some (resolvedMeta meta)"
    using registered_meta [OF assms(1)] by (rule conjunct2)
  have a: "z \<notin> set (apiFields (resolvedMeta meta))"
    using assms(4) by (auto simp: resolvedMeta_def split: option.splits)
  have b: "z \<notin> set (apiMethods (resolvedMeta meta))"
    using assms(5) by (auto simp: resolvedMeta_def split: option.splits)
  have c: "z \<notin> set (wiredFields (resolvedMeta meta))"
    using assms(6) by (auto simp: resolvedMeta_def split: option.splits)
  have d: "z \<notin> set (wiredMethods (resolvedMeta meta))"
    using assms(6) by (auto simp: resolvedMeta_def split: option.splits)
  from assms(1) obtain s2 s3 where
    p4: "(case track meta of None \<Rightarrow> (Inr (), s2)
      | Some tracked \<Rightarrow> trackLoop e Ctor tracked s2) = (Inr (), s3)" and
    s': "prototype s' = prototype s3"
    by (rule registerDecorators_InrE) (simp add: setDecoratorsMeta_def)
  from p4 assms(2) have "trackLoop e Ctor tracked s2 = (Inr (), s3)" by simp
  from trackLoop_prototype [OF this, of z] assms(3) s'
  have p: "prototype s' Ctor z = Some (accessorOf (internalTrackDecorator e z))" by simp
  from m a b c d p show ?thesis by simp
qed

text \<open>
  The sample metadata tracks \<^verbatim>\<open>z\<close> and nothing else mentions it.
\<close>

theorem tracked_name_in_no_list_witness:
  "fst (registerDecorators devEnv 0 metaA (initialState sampleProtos sampleExt)) = Inr 0 \<and>
   track metaA = Some [(''z'', 1)] \<and>
   (\<exists>m. metaAt (snd (registerDecorators devEnv 0 metaA (initialState sampleProtos sampleExt)))
           (getDecoratorsMeta (snd (registerDecorators devEnv 0 metaA (initialState sampleProtos sampleExt))) 0)
         = Some m \<and>
        ''z'' \<notin> set (apiFields m) \<and> ''z'' \<notin> set (apiMethods m) \<and>
        ''z'' \<notin> set (wiredFields m) \<and> ''z'' \<notin> set (wiredMethods m)) \<and>
   prototype (snd (registerDecorators devEnv 0 metaA (initialState sampleProtos sampleExt))) 0 ''z''
     = Some (AccessorDescriptor (JFun 106) (JFun 107) True True)"
proof -
  let ?s' = "snd (registerDecorators devEnv 0 metaA (initialState sampleProtos sampleExt))"
  have r: "fst (registerDecorators devEnv 0 metaA (initialState sampleProtos sampleExt)) = Inr 0"
    by (simp add: run_defs sample_defs)
  then have h1: "registerDecorators devEnv 0 metaA (initialState sampleProtos sampleExt) = (Inr 0, ?s')"
    by (simp add: prod_eq_iff)
  have h2: "track metaA = Some [(''z'', 1)]" by (simp add: metaA_def)
  have h3: "''z'' \<in> fst ` set [(''z'', 1::nat)]" by simp
  have h4: "''z'' \<notin> (case publicProps metaA of None \<Rightarrow> {} | Some props \<Rightarrow> fst ` set props)"
    by (simp add: metaA_def)
  have h5: "''z'' \<notin> (case publicMethods metaA of None \<Rightarrow> {} | Some methods \<Rightarrow> set methods)"
    by (simp add: metaA_def)
  have h6: "''z'' \<notin> (case wire metaA of None \<Rightarrow> {} | Some wires \<Rightarrow> fst ` set wires)"
    by (simp add: metaA_def)
  have t: "accessorOf (internalTrackDecorator devEnv ''z'') = AccessorDescriptor (JFun 106) (JFun 107) True True"
    by (simp add: accessorOf_def devEnv_def)
  from tracked_name_in_no_list [OF h1 h2 h3 h4 h5 h6] r h2 t show ?thesis by auto
qed

text \<open>
  C8. Registering a class a second time overwrites its registry entry: after two
  registrations of the same class that both return, \<^verbatim>\<open>getDecoratorsMeta\<close> gives a new
  object, different from the one the first registration stored, and it holds the metadata
  resolved from the second registration's input alone; nothing of the first is merged in.
\<close>

theorem second_registration_overwrites:
  assumes "registerDecorators e Ctor meta1 s = (Inr c1, s1)"
    and "registerDecorators e Ctor meta2 s1 = (Inr c2, s2)"
  shows "metaAt s1 (getDecoratorsMeta s1 Ctor) = Some (resolvedMeta meta1) \<and>
         metaAt s2 (getDecoratorsMeta s2 Ctor) = Some (resolvedMeta meta2) \<and>
         getDecoratorsMeta s2 Ctor \<noteq> getDecoratorsMeta s1 Ctor"
proof -
  from registered_meta [OF assms(1)]
  have a: "getDecoratorsMeta s1 Ctor = Suc (length (metaObjects s))"
    and b: "metaAt s1 (getDecoratorsMeta s1 Ctor) = Some (resolvedMeta meta1)" by blast+
  from registered_meta [OF assms(2)]
  have c: "getDecoratorsMeta s2 Ctor = Suc (length (metaObjects s1))"
    and d: "metaAt s2 (getDecoratorsMeta s2 Ctor) = Some (resolvedMeta meta2)" by blast+
  from registerDecorators_stored [OF assms(1)]
  have "length (metaObjects s1) = Suc (length (metaObjects s))" by simp
  with a b c d show ?thesis by simp
qed

text \<open>
  Class \<open>0\<close> registered with the sample metadata and then with a single public field
  \<^verbatim>\<open>v\<close>: both calls return, and afterwards the metadata lists \<^verbatim>\<open>v\<close> alone.
\<close>

theorem second_registration_overwrites_witness:
  "fst (registerDecorators devEnv 0 metaA (initialState sampleProtos sampleExt)) = Inr 0 \<and>
   fst (registerDecorators devEnv 0 metaB
          (snd (registerDecorators devEnv 0 metaA (initialState sampleProtos sampleExt)))) = Inr 0 \<and>
   metaAt (snd (registerDecorators devEnv 0 metaB
          (snd (registerDecorators devEnv 0 metaA (initialState sampleProtos sampleExt)))))
      (getDecoratorsMeta (snd (registerDecorators devEnv 0 metaB
          (snd (registerDecorators devEnv 0 metaA (initialState sampleProtos sampleExt))))) 0)
     = Some \<lparr>apiMethods = [], apiFields = [''v''], wiredMethods = [], wiredFields = [],
             meta_fields = FieldsEntry None\<rparr> \<and>
   getDecoratorsMeta (snd (registerDecorators devEnv 0 metaB
          (snd (registerDecorators devEnv 0 metaA (initialState sampleProtos sampleExt))))) 0 = 2 \<and>
   getDecoratorsMeta (snd (registerDecorators devEnv 0 metaA (initialState sampleProtos sampleExt))) 0 = 1"
proof -
  let ?s1 = "snd (registerDecorators devEnv 0 metaA (initialState sampleProtos sampleExt))"
  let ?s2 = "snd (registerDecorators devEnv 0 metaB ?s1)"
  have r1: "fst (registerDecorators devEnv 0 metaA (initialState sampleProtos sampleExt)) = Inr 0"
    by (simp add: run_defs sample_defs)
  have r2: "fst (registerDecorators devEnv 0 metaB ?s1) = Inr 0"
    by (simp add: run_defs sample_defs metaB_def)
  have h1: "registerDecorators devEnv 0 metaA (initialState sampleProtos sampleExt) = (Inr 0, ?s1)"
    using r1 by (simp add: prod_eq_iff)
  have h2: "registerDecorators devEnv 0 metaB ?s1 = (Inr 0, ?s2)"
    using r2 by (simp add: prod_eq_iff)
  have g1: "getDecoratorsMeta ?s1 0 = 1"
    by (simp add: run_defs sample_defs)
  have g2: "getDecoratorsMeta ?s2 0 = 2"
    by (simp add: run_defs sample_defs metaB_def)
  have m: "resolvedMeta metaB =
      \<lparr>apiMethods = [], apiFields = [''v''], wiredMethods = [], wiredFields = [],
       meta_fields = FieldsEntry None\<rparr>"
    by (simp add: resolvedMeta_def metaB_def)
  from second_registration_overwrites [OF h1 h2] r1 r2 g1 g2 m show ?thesis by simp
qed

text \<open>
  C9, as amended. The dispatch on a wire entry compares the method flag with the number 1. An
  entry whose flag is anything else is registered exactly as if the flag were absent,
  through the field branch and never as a method binding: replacing the flag by
  \<^verbatim>\<open>undefined\<close> changes neither the outcome nor the state left behind. For a registration
  of such an entry alone: in a development build an own member of the prototype under the
  name makes the call throw the diagnostic of a wired field, with nothing installed and
  \<^verbatim>\<open>storeWiredFieldMeta\<close> not called. Otherwise \<^verbatim>\<open>storeWiredFieldMeta\<close> is called and the
  wire-field descriptor is defined under the name; if \<^verbatim>\<open>Object.defineProperty\<close> rejects it
  the call throws a \<^verbatim>\<open>TypeError\<close> with the wiring call already made, and if not the call
  returns with the descriptor installed (in a production build over the member, if there
  was one) and the name in \<^verbatim>\<open>wiredFields\<close>, not \<^verbatim>\<open>wiredMethods\<close>.
\<close>

theorem wire_flag_other_than_one_is_a_field:
  assumes "wire_method d \<noteq> JNum 1"
  shows "registerDecorators e Ctor (meta\<lparr>wire := Some (before @ (n, d) # after)\<rparr>) s =
         registerDecorators e Ctor
           (meta\<lparr>wire := Some (before @ (n, d\<lparr>wire_method := JUndefined\<rparr>) # after)\<rparr>) s \<and>
         (let r = registerDecorators e Ctor
                    \<lparr>publicMethods = None, publicProps = None, track = None,
                     wire = Some [(n, d)], reg_fields = None\<rparr> s;
              s1 = storeWiredFieldMeta Ctor n (wire_adapter d) (wire_config d) s
          in if \<not> production e \<and> prototype s Ctor n \<noteq> None
             then r = (Inl (AssertFail
                         (''Compiler Error: Invalid @wire(...) '' @ n @ '' field declaration.'')),
                       s)
             else (case defineProperty Ctor n (accessorOf (internalWireFieldDecorator e n)) s1 of
                     Inl err \<Rightarrow>
                       r = (Inl TypeError, s1) \<and>
                       wiringTable s1 =
                         wiringTable s @
                         [StoreWiredFieldMeta Ctor n (wire_adapter d) (wire_config d)] \<and>
                       prototype s1 = prototype s
                   | Inr s2 \<Rightarrow>
                       fst r = Inr Ctor \<and>
                       prototype (snd r) Ctor n =
                         Some (accessorOf (internalWireFieldDecorator e n)) \<and>
                       wiringTable (snd r) =
                         wiringTable s @
                         [StoreWiredFieldMeta Ctor n (wire_adapter d) (wire_config d)] \<and>
                       metaAt (snd r) (getDecoratorsMeta (snd r) Ctor) =
                         Some \<lparr>apiMethods = [], apiFields = [], wiredMethods = [],
                               wiredFields = [n], meta_fields = FieldsEntry None\<rparr>))"
proof
  show "registerDecorators e Ctor (meta\<lparr>wire := Some (before @ (n, d) # after)\<rparr>) s =
         registerDecorators e Ctor
           (meta\<lparr>wire := Some (before @ (n, d\<lparr>wire_method := JUndefined\<rparr>) # after)\<rparr>) s"
    by (simp add: registerDecorators_def wireLoop_flag [OF assms]
          cong: prod.case_cong sum.case_cong option.case_cong)
next
  let ?s1 = "storeWiredFieldMeta Ctor n (wire_adapter d) (wire_config d) s"
  let ?desc = "accessorOf (internalWireFieldDecorator e n)"
  let ?r = "registerDecorators e Ctor
                    \<lparr>publicMethods = None, publicProps = None, track = None,
                     wire = Some [(n, d)], reg_fields = None\<rparr> s"
  have failing: "?r = (Inl (AssertFail
        (''Compiler Error: Invalid @wire(...) '' @ n @ '' field declaration.'')), s)"
    if "\<not> production e" and "prototype s Ctor n \<noteq> None"
    using that assms
    by (auto simp: registerDecorators_def wireStep_def validate_defs Let_def)
  have valid: "(if \<not> production e then validateFieldDecoratedWithWire e s Ctor n else Inr ())
      = Inr ()" if "\<not> (\<not> production e \<and> prototype s Ctor n \<noteq> None)"
    using that by (auto simp: validate_defs)
  have rejected: "?r = (Inl TypeError, ?s1) \<and>
      wiringTable ?s1 =
        wiringTable s @ [StoreWiredFieldMeta Ctor n (wire_adapter d) (wire_config d)] \<and>
      prototype ?s1 = prototype s"
    if "\<not> (\<not> production e \<and> prototype s Ctor n \<noteq> None)"
      and "defineProperty Ctor n ?desc ?s1 = Inl err" for err
    using assms valid [OF that(1)] that(2) defineProperty_Inl [OF that(2)]
    by (simp add: registerDecorators_def wireStep_def Let_def storeWiredFieldMeta_def)
  have accepted: "fst ?r = Inr Ctor \<and>
      prototype (snd ?r) Ctor n = Some ?desc \<and>
      wiringTable (snd ?r) =
        wiringTable s @ [StoreWiredFieldMeta Ctor n (wire_adapter d) (wire_config d)] \<and>
      metaAt (snd ?r) (getDecoratorsMeta (snd ?r) Ctor) =
        Some \<lparr>apiMethods = [], apiFields = [], wiredMethods = [], wiredFields = [n],
              meta_fields = FieldsEntry None\<rparr>"
    if "\<not> (\<not> production e \<and> prototype s Ctor n \<noteq> None)"
      and "defineProperty Ctor n ?desc ?s1 = Inr s2" for s2
    using assms valid [OF that(1)] that(2) defineProperty_Inr [OF that(2)]
    by (simp add: registerDecorators_def wireStep_def Let_def storeWiredFieldMeta_def
          newDecoratorMeta_def setDecoratorsMeta_def getDecoratorsMeta_def)
  show "let r = ?r; s1 = ?s1
          in if \<not> production e \<and> prototype s Ctor n \<noteq> None
             then r = (Inl (AssertFail
                         (''Compiler Error: Invalid @wire(...) '' @ n @ '' field declaration.'')),
                       s)
             else (case defineProperty Ctor n (accessorOf (internalWireFieldDecorator e n)) s1 of
                     Inl err \<Rightarrow>
                       r = (Inl TypeError, s1) \<and>
                       wiringTable s1 =
                         wiringTable s @
                         [StoreWiredFieldMeta Ctor n (wire_adapter d) (wire_config d)] \<and>
                       prototype s1 = prototype s
                   | Inr s2 \<Rightarrow>
                       fst r = Inr Ctor \<and>
                       prototype (snd r) Ctor n =
                         Some (accessorOf (internalWireFieldDecorator e n)) \<and>
                       wiringTable (snd r) =
                         wiringTable s @
                         [StoreWiredFieldMeta Ctor n (wire_adapter d) (wire_config d)] \<and>
                       metaAt (snd r) (getDecoratorsMeta (snd r) Ctor) =
                         Some \<lparr>apiMethods = [], apiFields = [], wiredMethods = [],
                               wiredFields = [n], meta_fields = FieldsEntry None\<rparr>)"
  proof (cases "\<not> production e \<and> prototype s Ctor n \<noteq> None")
    case True
    with failing show ?thesis by (simp add: Let_def)
  next
    case False
    show ?thesis
    proof (cases "defineProperty Ctor n ?desc ?s1")
      case (Inl err)
      with False rejected [OF False Inl] show ?thesis by (auto simp: Let_def)
    next
      case (Inr s2)
      with False accepted [OF False Inr] show ?thesis by (auto simp: Let_def)
    qed
  qed
qed

text \<open>
  In a production build: the configurable method \<^verbatim>\<open>foo\<close> of class \<open>0\<close> wired with the
  flag \<^verbatim>\<open>true\<close> is replaced by the wire-field descriptor and a field binding is stored;
  for the method \<^verbatim>\<open>foo\<close> of class \<open>4\<close>, which is not configurable, wired with the flag
  2, the field binding is stored and then the call throws a \<^verbatim>\<open>TypeError\<close>.
\<close>

theorem wire_flag_other_than_one_is_a_field_witness:
  "prototype (initialState sampleProtos sampleExt) 0 ''foo'' =
     Some (DataDescriptor (JFun 1) True False True) \<and>
   fst (registerDecorators prodEnv 0 (wireOnly ''foo'' (JBool True))
          (initialState sampleProtos sampleExt)) = Inr 0 \<and>
   prototype (snd (registerDecorators prodEnv 0 (wireOnly ''foo'' (JBool True))
          (initialState sampleProtos sampleExt))) 0 ''foo'' =
     Some (AccessorDescriptor (JFun 104) (JFun 105) True True) \<and>
   wiringTable (snd (registerDecorators prodEnv 0 (wireOnly ''foo'' (JBool True))
          (initialState sampleProtos sampleExt))) = [StoreWiredFieldMeta 0 ''foo'' 7 8] \<and>
   fst (registerDecorators prodEnv 4 (wireOnly ''foo'' (JNum 2))
          (initialState sampleProtos sampleExt)) = Inl TypeError \<and>
   wiringTable (snd (registerDecorators prodEnv 4 (wireOnly ''foo'' (JNum 2))
          (initialState sampleProtos sampleExt))) = [StoreWiredFieldMeta 4 ''foo'' 7 8] \<and>
   prototype (snd (registerDecorators prodEnv 4 (wireOnly ''foo'' (JNum 2))
          (initialState sampleProtos sampleExt))) 4 ''foo'' =
     Some (DataDescriptor (JFun 8) True False False)"
proof -
  let ?s0 = "initialState sampleProtos sampleExt"
  have a: "wire_method \<lparr>wire_method = JBool True, wire_adapter = 7, wire_config = 8\<rparr> \<noteq> JNum 1"
    by simp
  have b: "wire_method \<lparr>wire_method = JNum 2, wire_adapter = 7, wire_config = 8\<rparr> \<noteq> JNum 1"
    by simp
  have p: "prototype ?s0 0 ''foo'' = Some (DataDescriptor (JFun 1) True False True)"
    by (simp add: sample_defs)
  have q: "prototype ?s0 4 ''foo'' = Some (DataDescriptor (JFun 8) True False False)"
    by (simp add: sample_defs)
  have e1: "production prodEnv" by (simp add: sample_defs)
  have w: "accessorOf (internalWireFieldDecorator prodEnv ''foo'') =
      AccessorDescriptor (JFun 104) (JFun 105) True True"
    by (simp add: sample_defs accessorOf_def)
  have t: "wiringTable ?s0 = []" by (simp add: sample_defs)
  have d0: "defineProperty 0 ''foo'' (AccessorDescriptor (JFun 104) (JFun 105) True True)
      (storeWiredFieldMeta 0 ''foo'' 7 8 ?s0) =
      Inr ((storeWiredFieldMeta 0 ''foo'' 7 8 ?s0)
        \<lparr>prototype := (prototype (storeWiredFieldMeta 0 ''foo'' 7 8 ?s0))
           (0 := (prototype (storeWiredFieldMeta 0 ''foo'' 7 8 ?s0) 0)
              (''foo'' \<mapsto> AccessorDescriptor (JFun 104) (JFun 105) True True))\<rparr>)"
    by (simp add: defineProperty_def storeWiredFieldMeta_def sample_defs)
  have d4: "defineProperty 4 ''foo'' (AccessorDescriptor (JFun 104) (JFun 105) True True)
      (storeWiredFieldMeta 4 ''foo'' 7 8 ?s0) = Inl TypeError"
    by (simp add: defineProperty_def storeWiredFieldMeta_def sample_defs)
  from wire_flag_other_than_one_is_a_field [OF a, where e = prodEnv and Ctor = 0 and
      meta = noMeta and before = "[]" and n = "''foo''" and after = "[]" and s = ?s0]
  have r0: "fst (registerDecorators prodEnv 0 (wireOnly ''foo'' (JBool True)) ?s0) = Inr 0 \<and>
      prototype (snd (registerDecorators prodEnv 0 (wireOnly ''foo'' (JBool True)) ?s0)) 0 ''foo'' =
        Some (AccessorDescriptor (JFun 104) (JFun 105) True True) \<and>
      wiringTable (snd (registerDecorators prodEnv 0 (wireOnly ''foo'' (JBool True)) ?s0)) =
        [StoreWiredFieldMeta 0 ''foo'' 7 8]"
    using e1 w t d0 by (simp add: Let_def wireOnly_def)
  from wire_flag_other_than_one_is_a_field [OF b, where e = prodEnv and Ctor = 4 and
      meta = noMeta and before = "[]" and n = "''foo''" and after = "[]" and s = ?s0]
  have r4: "registerDecorators prodEnv 4 (wireOnly ''foo'' (JNum 2)) ?s0 =
      (Inl TypeError, storeWiredFieldMeta 4 ''foo'' 7 8 ?s0)"
    using e1 w d4 by (simp add: Let_def wireOnly_def)
  have t4: "wiringTable (storeWiredFieldMeta 4 ''foo'' 7 8 ?s0) = [StoreWiredFieldMeta 4 ''foo'' 7 8]"
    by (simp add: storeWiredFieldMeta_def sample_defs)
  have q4: "prototype (storeWiredFieldMeta 4 ''foo'' 7 8 ?s0) 4 ''foo'' =
      Some (DataDescriptor (JFun 8) True False False)"
    by (simp add: storeWiredFieldMeta_def sample_defs)
  from p r0 r4 t4 q4 show ?thesis by simp
qed

text \<open>
  In a development build the descriptor is not installed over a member. The method
  \<^verbatim>\<open>foo\<close> of class \<open>0\<close> wired with the flag \<^verbatim>\<open>true\<close>: the flag is not the number 1, the
  call throws the
  diagnostic of a wired field, and afterwards the prototype member is still the method,
  not the wire-field descriptor, and the wiring table is empty, so
  \<^verbatim>\<open>storeWiredFieldMeta\<close> was not called.
\<close>

theorem wire_flag_true_throws_in_development_build:
  "JBool True \<noteq> JNum 1 \<and>
   registerDecorators devEnv 0 (wireOnly ''foo'' (JBool True))
       (initialState sampleProtos sampleExt) =
     (Inl (AssertFail ''Compiler Error: Invalid @wire(...) foo field declaration.''),
      initialState sampleProtos sampleExt) \<and>
   prototype (snd (registerDecorators devEnv 0 (wireOnly ''foo'' (JBool True))
       (initialState sampleProtos sampleExt))) 0 ''foo'' =
     Some (DataDescriptor (JFun 1) True False True) \<and>
   prototype (snd (registerDecorators devEnv 0 (wireOnly ''foo'' (JBool True))
       (initialState sampleProtos sampleExt))) 0 ''foo'' \<noteq>
     Some (accessorOf (internalWireFieldDecorator devEnv ''foo'')) \<and>
   wiringTable (snd (registerDecorators devEnv 0 (wireOnly ''foo'' (JBool True))
       (initialState sampleProtos sampleExt))) = []"
proof -
  have r: "registerDecorators devEnv 0 (wireOnly ''foo'' (JBool True))
       (initialState sampleProtos sampleExt) =
     (Inl (AssertFail ''Compiler Error: Invalid @wire(...) foo field declaration.''),
      initialState sampleProtos sampleExt)"
    by (simp add: wireOnly_def run_defs sample_defs)
  have p: "prototype (initialState sampleProtos sampleExt) 0 ''foo'' =
     Some (DataDescriptor (JFun 1) True False True)"
    by (simp add: sample_defs)
  have w: "accessorOf (internalWireFieldDecorator devEnv ''foo'') =
      AccessorDescriptor (JFun 104) (JFun 105) True True"
    by (simp add: sample_defs accessorOf_def)
  have t: "wiringTable (initialState sampleProtos sampleExt) = []" by (simp add: sample_defs)
  from r p w t show ?thesis by simp
qed

text \<open>
  C10. Every registration that returns has written a registry entry for the class, a
  reference to an object allocated by this call. In particular, registering a class with
  an empty metadata object returns and writes an entry: \<^verbatim>\<open>getDecoratorsMeta\<close> then gives
  an object allocated by this call (its reference denoted nothing before), which is not
  the shared default object; its four lists are empty and its \<^verbatim>\<open>fields\<close> entry is
  present and holds \<^verbatim>\<open>undefined\<close>, where the default object has no such entry.
\<close>

theorem empty_meta_registers_fresh_object:
  "(\<forall>meta c s'. registerDecorators e Ctor meta s = (Inr c, s') \<longrightarrow>
      signedDecoratorToMetaMap s' Ctor = Some (getDecoratorsMeta s' Ctor) \<and>
      getDecoratorsMeta s' Ctor \<noteq> defaultMetaRef \<and>
      metaAt s (getDecoratorsMeta s' Ctor) = None) \<and>
   fst (registerDecorators e Ctor
          \<lparr>publicMethods = None, publicProps = None, track = None, wire = None,
           reg_fields = None\<rparr> s) = Inr Ctor \<and>
   (let s' = snd (registerDecorators e Ctor
          \<lparr>publicMethods = None, publicProps = None, track = None, wire = None,
           reg_fields = None\<rparr> s)
    in signedDecoratorToMetaMap s' Ctor = Some (getDecoratorsMeta s' Ctor) \<and>
       getDecoratorsMeta s' Ctor \<noteq> defaultMetaRef \<and>
       metaAt s (getDecoratorsMeta s' Ctor) = None \<and>
       metaAt s' (getDecoratorsMeta s' Ctor) =
         Some \<lparr>apiMethods = [], apiFields = [], wiredMethods = [], wiredFields = [],
               meta_fields = FieldsEntry None\<rparr> \<and>
       metaAt s' defaultMetaRef =
         Some \<lparr>apiMethods = [], apiFields = [], wiredMethods = [], wiredFields = [],
               meta_fields = NoFieldsEntry\<rparr> \<and>
       prototype s' = prototype s \<and> wiringTable s' = wiringTable s)"
proof (intro conjI allI impI)
  fix meta c s'
  assume r: "registerDecorators e Ctor meta s = (Inr c, s')"
  from registerDecorators_stored [OF r]
  have g: "signedDecoratorToMetaMap s' Ctor = Some (Suc (length (metaObjects s)))" by simp
  then have "getDecoratorsMeta s' Ctor = Suc (length (metaObjects s))"
    by (simp add: getDecoratorsMeta_def)
  with g show "signedDecoratorToMetaMap s' Ctor = Some (getDecoratorsMeta s' Ctor)"
    and "getDecoratorsMeta s' Ctor \<noteq> defaultMetaRef"
    and "metaAt s (getDecoratorsMeta s' Ctor) = None"
    by (simp_all add: defaultMetaRef_def)
next
  show "fst (registerDecorators e Ctor
          \<lparr>publicMethods = None, publicProps = None, track = None, wire = None,
           reg_fields = None\<rparr> s) = Inr Ctor"
    by (simp add: registerDecorators_def newDecoratorMeta_def)
next
  show "let s' = snd (registerDecorators e Ctor
          \<lparr>publicMethods = None, publicProps = None, track = None, wire = None,
           reg_fields = None\<rparr> s)
    in signedDecoratorToMetaMap s' Ctor = Some (getDecoratorsMeta s' Ctor) \<and>
       getDecoratorsMeta s' Ctor \<noteq> defaultMetaRef \<and>
       metaAt s (getDecoratorsMeta s' Ctor) = None \<and>
       metaAt s' (getDecoratorsMeta s' Ctor) =
         Some \<lparr>apiMethods = [], apiFields = [], wiredMethods = [], wiredFields = [],
               meta_fields = FieldsEntry None\<rparr> \<and>
       metaAt s' defaultMetaRef =
         Some \<lparr>apiMethods = [], apiFields = [], wiredMethods = [], wiredFields = [],
               meta_fields = NoFieldsEntry\<rparr> \<and>
       prototype s' = prototype s \<and> wiringTable s' = wiringTable s"
    by (simp add: registerDecorators_def newDecoratorMeta_def setDecoratorsMeta_def
        getDecoratorsMeta_def defaultMetaRef_def defaultMeta_def Let_def)
qed

text \<open>Class \<open>1\<close> of the sample, in a development build.\<close>

theorem empty_meta_registers_fresh_object_witness:
  "fst (registerDecorators devEnv 1 noMeta (initialState sampleProtos sampleExt)) = Inr 1 \<and>
   getDecoratorsMeta (snd (registerDecorators devEnv 1 noMeta (initialState sampleProtos sampleExt))) 1 = 1 \<and>
   getDecoratorsMeta (initialState sampleProtos sampleExt) 1 = defaultMetaRef \<and>
   defaultMetaRef = 0"
  using empty_meta_registers_fresh_object [of devEnv 1 "initialState sampleProtos sampleExt"]
  by (simp add: run_defs sample_defs)

end
